theory Spec2Isabelle
  imports Complex_Main
begin

section \<open>Data model of WrenchDimensionCalculator.py\<close>

text \<open>
  Number model. The source computes with Python \<open>float\<close>s, which are IEEE 754 doubles.
  The functions are given twice. First with exact real arithmetic: this is the
  arithmetic of the formulas, and it serves the statements that rounding does not touch
  (which statement runs, which exception is raised, how many results there are, which
  values are passed where, the order relations of the hole diameter). Then, from the
  section on double arithmetic onwards, with every operation rounded to the nearest
  double as the interpreter does: every statement whose truth depends on rounding is
  made about these. In both a float is a \<open>real\<close>; infinities and NaN are not
  represented. A finite \<open>Decimal\<close> is an exact decimal number, hence a \<open>rat\<close>.

  Two field names are suffixed. \<open>size\<close> of \<open>HexWrench\<close> is \<open>size_mm\<close>, since
  \<open>size\<close> is a constant of HOL; \<open>x\<close> and \<open>y\<close> of \<open>HoleCoords\<close> are \<open>coord_x\<close>
  and \<open>coord_y\<close>, so that \<open>x\<close> and \<open>y\<close> stay usable as variables.
\<close>

record HexWrench =
  size_mm :: rat
  head_width :: real
  head_short_length :: real
  size_f :: real
  circumference :: real
  square :: real
  area :: real

record HexWrenchHolderParameters =
  lengthwise_border :: real
  lengthwise_inner_spacing :: real
  widthwise_border :: real
  height :: real
  hole_enlarge_factor :: real
  hole_enlarge_min :: real

record HoleCoords =
  coord_x :: real
  coord_y :: real

text \<open>
  \<open>hole_coords\<close> is annotated \<open>HoleCoords\<close> in the source, but \<open>compute_hole_detail\<close>
  stores \<open>None\<close> there, so the field is an option.
\<close>

record HoleDetails =
  hex_size :: rat
  hex_long_diameter :: real
  hole_diameter :: real
  hole_coords :: "HoleCoords option"

text \<open>The exceptions the interpreter raises in this program.\<close>

datatype py_exception =
    ValueError        \<comment> \<open>\<open>max\<close> of an empty list\<close>
  | IndexError        \<comment> \<open>list index out of range\<close>
  | AttributeError    \<comment> \<open>attribute access on \<open>None\<close>\<close>

section \<open>The functions in exact arithmetic\<close>

definition py_float :: "rat \<Rightarrow> real" where
  "py_float d = of_rat d"

definition create_hex_wrench :: "rat \<Rightarrow> real \<Rightarrow> real \<Rightarrow> HexWrench" where
  "create_hex_wrench size' head_width' head_short_length' =
     (let size_f' = py_float size' in
      \<lparr> size_mm = size',
        head_width = head_width',
        head_short_length = head_short_length',
        size_f = size_f',
        circumference = 6 * size_f',
        square = sqrt 2 * size_f',
        area = 3 / 2 * sqrt 3 * size_f' * size_f' \<rparr>)"

definition compute_hex_long_diameter :: "real \<Rightarrow> real" where
  "compute_hex_long_diameter hex_size' = 2 / sqrt 3 * hex_size'"

text \<open>
  Python's two-argument \<open>max(a, b)\<close> returns \<open>b\<close> when \<open>b > a\<close> and \<open>a\<close> otherwise.
\<close>

definition py_max2 :: "real \<Rightarrow> real \<Rightarrow> real" where
  "py_max2 a b = (if b > a then b else a)"

definition compute_hole_diameter :: "real \<Rightarrow> real \<Rightarrow> real \<Rightarrow> real" where
  "compute_hole_diameter hex_long_dia hole_enlarge_factor' hole_enlarge_min' =
     py_max2 (hex_long_dia + hole_enlarge_min') (hex_long_dia * hole_enlarge_factor')"

definition compute_hole_detail :: "rat \<Rightarrow> real \<Rightarrow> real \<Rightarrow> real \<Rightarrow> HoleDetails" where
  "compute_hole_detail hex_size' hex_long_dia hole_enlarge_factor' hole_enlarge_min' =
     \<lparr> hex_size = hex_size',
       hex_long_diameter = hex_long_dia,
       hole_diameter =
         compute_hole_diameter hex_long_dia hole_enlarge_factor' hole_enlarge_min',
       hole_coords = None \<rparr>"

text \<open>
  The \<open>for\<close> loop of \<open>compute_hole_centers\<close>: the state is \<open>pre_center\<close> and the list
  \<open>centers\<close>, which grows at its end.
\<close>

fun centers_loop ::
  "real list \<Rightarrow> real \<Rightarrow> real \<Rightarrow> real \<Rightarrow> HoleCoords list \<Rightarrow> HoleCoords list" where
  "centers_loop [] inner_spacing y_center pre_center centers = centers"
| "centers_loop (half_width # rest) inner_spacing y_center pre_center centers =
     (let x_center = pre_center + half_width in
      centers_loop rest inner_spacing y_center
        (x_center + half_width + inner_spacing)
        (centers @ [\<lparr> coord_x = x_center, coord_y = y_center \<rparr>]))"

text \<open>\<open>half_widths[0]\<close> raises \<open>IndexError\<close> on the empty list, before the loop starts.\<close>

definition compute_hole_centers ::
  "real list \<Rightarrow> real \<Rightarrow> real \<Rightarrow> real \<Rightarrow> real \<Rightarrow> py_exception + HoleCoords list" where
  "compute_hole_centers hex_wrench_widths inner_spacing lengthwise_border'
       widthwise_border' max_short_handle_length =
     (let y_center = widthwise_border' + max_short_handle_length;
          half_widths = map (\<lambda>w. w / 2) hex_wrench_widths
      in case half_widths of
           [] \<Rightarrow> Inl IndexError
         | first_half # _ \<Rightarrow>
             Inr (centers_loop half_widths inner_spacing y_center
                    (lengthwise_border' - first_half) []))"

definition compute_holder_length :: "real \<Rightarrow> real \<Rightarrow> real \<Rightarrow> real" where
  "compute_holder_length last_hole_x_center hole_dia lengthwise_border' =
     last_hole_x_center + hole_dia / 2 + lengthwise_border'"

definition compute_holder_width :: "real \<Rightarrow> real \<Rightarrow> real \<Rightarrow> real" where
  "compute_holder_width max_handle_short_length max_hex_diameter width_border =
     width_border + max_handle_short_length + max_hex_diameter + width_border"

section \<open>The script body in exact arithmetic\<close>

text \<open>
  Python's \<open>max\<close> of a list raises \<open>ValueError\<close> on the empty list; otherwise it walks
  the list and replaces the running maximum by each item that is greater.
\<close>

fun py_max :: "real list \<Rightarrow> py_exception + real" where
  "py_max [] = Inl ValueError"
| "py_max (first # rest) =
     Inr (fold (\<lambda>item max_val. if item > max_val then item else max_val) rest first)"

text \<open>\<open>xs[-1]\<close> raises \<open>IndexError\<close> on the empty list.\<close>

fun py_last :: "'a list \<Rightarrow> py_exception + 'a" where
  "py_last [] = Inl IndexError"
| "py_last (v # vs) = Inr (last (v # vs))"

text \<open>\<open>c.x\<close> where \<open>c\<close> may be \<open>None\<close>.\<close>

fun py_attr_x :: "HoleCoords option \<Rightarrow> py_exception + real" where
  "py_attr_x None = Inl AttributeError"
| "py_attr_x (Some c) = Inr (coord_x c)"

text \<open>
  The statements of the \<open>__main__\<close> block that can raise, named after the variable
  they assign. A fault is the statement together with the exception.
\<close>

datatype statement =
    Assign_max_handle_short_length
  | Assign_max_hole_diameter
  | Assign_hole_centers
  | Assign_holder_length
  | Assign_holder_width

type_synonym fault = "statement \<times> py_exception"

text \<open>What the computations leave for the display part.\<close>

record layout =
  hole_details :: "HoleDetails list"
  holder_length :: real
  holder_width :: real

text \<open>
  The first list comprehension (lines 217 to 224): one \<open>HoleDetails\<close> without
  coordinates per wrench. The next definition is the comprehension of lines 226 to 227.
\<close>

definition hole_details_without_coords ::
  "HexWrench list \<Rightarrow> HexWrenchHolderParameters \<Rightarrow> HoleDetails list" where
  "hole_details_without_coords hex_set p =
     map (\<lambda>hw. compute_hole_detail (size_mm hw)
                 (compute_hex_long_diameter (size_f hw))
                 (hole_enlarge_factor p) (hole_enlarge_min p))
         hex_set"

definition hex_wrench_widths_of :: "HexWrench list \<Rightarrow> HoleDetails list \<Rightarrow> real list" where
  "hex_wrench_widths_of hex_set hds =
     map (\<lambda>(hw, hdet). py_max2 (hole_diameter hdet) (head_width hw)) (zip hex_set hds)"

text \<open>
  The second comprehension over \<open>hole_details\<close> (lines 242 to 249): the coordinates
  are attached by position.
\<close>

definition hole_details_with_coords ::
  "HoleDetails list \<Rightarrow> HoleCoords list \<Rightarrow> HoleDetails list" where
  "hole_details_with_coords hds hole_centers =
     map (\<lambda>(hdet, coord).
            \<lparr> hex_size = hex_size hdet,
              hex_long_diameter = hex_long_diameter hdet,
              hole_diameter = hole_diameter hdet,
              hole_coords = Some coord \<rparr>)
         (zip hds hole_centers)"

text \<open>
  The call that computes \<open>holder_length\<close> (lines 252 to 255); its arguments are
  evaluated from left to right, each with its own \<open>hole_details[-1]\<close>.
\<close>

definition holder_length_of ::
  "HoleDetails list \<Rightarrow> HexWrenchHolderParameters \<Rightarrow> py_exception + real" where
  "holder_length_of hds p =
     (case py_last hds of
        Inl e \<Rightarrow> Inl e
      | Inr last_hd \<Rightarrow>
          (case py_attr_x (hole_coords last_hd) of
             Inl e \<Rightarrow> Inl e
           | Inr last_hole_x_center \<Rightarrow>
               (case py_last hds of
                  Inl e \<Rightarrow> Inl e
                | Inr last_hd' \<Rightarrow>
                    Inr (compute_holder_length last_hole_x_center
                           (hex_long_diameter last_hd') (lengthwise_border p)))))"

text \<open>
  The dimension computations of \<open>__main__\<close> (lines 217 to 261), in the order of the
  script, for any wrench set and any parameters. An exception ends the run at the
  statement that raised it.
\<close>

definition pipeline :: "HexWrench list \<Rightarrow> HexWrenchHolderParameters \<Rightarrow> fault + layout" where
  "pipeline hex_set p =
     (let hds = hole_details_without_coords hex_set p;
          hex_wrench_widths = hex_wrench_widths_of hex_set hds
      in case py_max (map head_short_length hex_set) of
           Inl e \<Rightarrow> Inl (Assign_max_handle_short_length, e)
         | Inr max_handle_short_length \<Rightarrow>
      (case py_max (map hole_diameter hds) of
           Inl e \<Rightarrow> Inl (Assign_max_hole_diameter, e)
         | Inr max_hole_diameter \<Rightarrow>
      (case compute_hole_centers hex_wrench_widths (lengthwise_inner_spacing p)
              (lengthwise_border p) (widthwise_border p) max_handle_short_length of
           Inl e \<Rightarrow> Inl (Assign_hole_centers, e)
         | Inr hole_centers \<Rightarrow>
      (let hds' = hole_details_with_coords hds hole_centers
       in case holder_length_of hds' p of
           Inl e \<Rightarrow> Inl (Assign_holder_length, e)
         | Inr holder_length' \<Rightarrow>
      (case py_max (map head_short_length hex_set) of
           Inl e \<Rightarrow> Inl (Assign_holder_width, e)
         | Inr max_handle_short_length' \<Rightarrow>
             Inr \<lparr> hole_details = hds',
                   holder_length = holder_length',
                   holder_width =
                     compute_holder_width max_handle_short_length' max_hole_diameter
                       (widthwise_border p) \<rparr>)))))"

text \<open>
  The table of hole details. A row records which of the two \<open>print\<close> calls the loop
  runs for a hole and the values it is given; the text of the numbers is not modelled.
\<close>

datatype table_row =
    Row_None rat real real
  | Row_coords rat real real real real

fun hole_row :: "HoleDetails \<Rightarrow> table_row" where
  "hole_row hdet =
     (case hole_coords hdet of
        None \<Rightarrow> Row_None (hex_size hdet) (hex_long_diameter hdet) (hole_diameter hdet)
      | Some c \<Rightarrow>
          Row_coords (hex_size hdet) (hex_long_diameter hdet) (hole_diameter hdet)
            (coord_x c) (coord_y c))"

fun is_Row_None :: "table_row \<Rightarrow> bool" where
  "is_Row_None (Row_None _ _ _) = True"
| "is_Row_None (Row_coords _ _ _ _ _) = False"

text \<open>The configuration written in the script, and the script's run on it.\<close>

definition hex_set :: "HexWrench list" where
  "hex_set =
     [ create_hex_wrench 2 24 36,
       create_hex_wrench (5 / 2) 24 36,
       create_hex_wrench 3 24 36,
       create_hex_wrench 4 24 36,
       create_hex_wrench 5 24 36,
       create_hex_wrench 6 24 36,
       create_hex_wrench 8 24 36,
       create_hex_wrench 10 31 46 ]"

definition hex_wrench_holder_parameters :: HexWrenchHolderParameters where
  "hex_wrench_holder_parameters =
     \<lparr> lengthwise_border = 5,
       lengthwise_inner_spacing = 5 / 2,
       widthwise_border = 5,
       height = 38,
       hole_enlarge_factor = 6 / 5,
       hole_enlarge_min = 1 \<rparr>"

definition main :: "fault + layout" where
  "main = pipeline hex_set hex_wrench_holder_parameters"

section \<open>Double arithmetic\<close>

text \<open>
  The interpreter's \<open>float\<close> is the IEEE 754 binary64 format, and every operation on
  floats returns the double nearest to the exact result, a tie going to the double
  whose last mantissa bit is 0. The sections above compute with exact reals. This
  section makes the rounding explicit; the functions are then given once more with
  every operation rounded as the interpreter rounds it, and every statement whose truth
  depends on rounding is made about these. A double is still a \<open>real\<close> here: results
  beyond the largest double (infinities) and NaN are not represented.

  \<open>rne\<close> rounds a real to the nearest integer, a tie going to the even one.
\<close>

definition rne :: "real \<Rightarrow> int" where
  "rne v =
     (let n = \<lfloor>v\<rfloor>; r = v - of_int n
      in if r < 1 / 2 then n
         else if 1 / 2 < r then n + 1
         else if even n then n else n + 1)"

text \<open>
  The exponent of the binade of \<open>v\<close>: \<open>2 ^ e \<le> |v| < 2 ^ (e + 1)\<close>, and \<open>- 1022\<close> for
  every \<open>v\<close> below the normal range (the subnormal numbers share one spacing).
\<close>

definition binade :: "real \<Rightarrow> int" where
  "binade v = max \<lfloor>log 2 \<bar>v\<bar>\<rfloor> (- 1022)"

text \<open>The nearest double: 53 significant bits in the binade of \<open>v\<close>.\<close>

definition fl :: "real \<Rightarrow> real" where
  "fl v =
     (if v = 0 then 0
      else of_int (rne (v * 2 powi (52 - binade v))) * 2 powi (binade v - 52))"

text \<open>
  Half a unit in the last place of the binade of \<open>v\<close>: the most that rounding to the
  nearest double can move \<open>v\<close>.
\<close>

definition half_ulp :: "real \<Rightarrow> real" where
  "half_ulp v = 2 powi (binade v - 53)"

text \<open>
  The values of a \<open>Decimal\<close> for which \<open>float\<close> gives a finite double or raises: a
  finite exact decimal number, and the signalling NaN. (The infinities and the quiet NaN
  convert to floats that are not represented here.)
\<close>

datatype decimal = Finite rat | sNaN

section \<open>The functions in double arithmetic\<close>

text \<open>
  Each function below is the function of the same name above, with the suffix \<open>_fl\<close>
  and with \<open>fl\<close> around every arithmetic operation of the source, in the source's order
  of evaluation. Comparisons and list operations are exact and are shared.
\<close>

text \<open>
  \<open>float(size)\<close> raises \<open>ValueError\<close> for the signalling NaN, which ends
  \<open>create_hex_wrench\<close>; for a finite decimal it is the nearest double.
\<close>

fun create_hex_wrench_fl :: "decimal \<Rightarrow> real \<Rightarrow> real \<Rightarrow> py_exception + HexWrench" where
  "create_hex_wrench_fl sNaN head_width' head_short_length' = Inl ValueError"
| "create_hex_wrench_fl (Finite size') head_width' head_short_length' =
     (let size_f' = fl (of_rat size') in
      Inr \<lparr> size_mm = size',
            head_width = head_width',
            head_short_length = head_short_length',
            size_f = size_f',
            circumference = fl (6 * size_f'),
            square = fl (fl (sqrt 2) * size_f'),
            area = fl (fl (fl (fl (3 / 2) * fl (sqrt 3)) * size_f') * size_f') \<rparr>)"

definition compute_hex_long_diameter_fl :: "real \<Rightarrow> real" where
  "compute_hex_long_diameter_fl hex_size' = fl (fl (2 / fl (sqrt 3)) * hex_size')"

definition compute_hole_diameter_fl :: "real \<Rightarrow> real \<Rightarrow> real \<Rightarrow> real" where
  "compute_hole_diameter_fl hex_long_dia hole_enlarge_factor' hole_enlarge_min' =
     py_max2 (fl (hex_long_dia + hole_enlarge_min'))
             (fl (hex_long_dia * hole_enlarge_factor'))"

definition compute_hole_detail_fl :: "rat \<Rightarrow> real \<Rightarrow> real \<Rightarrow> real \<Rightarrow> HoleDetails" where
  "compute_hole_detail_fl hex_size' hex_long_dia hole_enlarge_factor' hole_enlarge_min' =
     \<lparr> hex_size = hex_size',
       hex_long_diameter = hex_long_dia,
       hole_diameter =
         compute_hole_diameter_fl hex_long_dia hole_enlarge_factor' hole_enlarge_min',
       hole_coords = None \<rparr>"

fun centers_loop_fl ::
  "real list \<Rightarrow> real \<Rightarrow> real \<Rightarrow> real \<Rightarrow> HoleCoords list \<Rightarrow> HoleCoords list" where
  "centers_loop_fl [] inner_spacing y_center pre_center centers = centers"
| "centers_loop_fl (half_width # rest) inner_spacing y_center pre_center centers =
     (let x_center = fl (pre_center + half_width) in
      centers_loop_fl rest inner_spacing y_center
        (fl (fl (x_center + half_width) + inner_spacing))
        (centers @ [\<lparr> coord_x = x_center, coord_y = y_center \<rparr>]))"

definition compute_hole_centers_fl ::
  "real list \<Rightarrow> real \<Rightarrow> real \<Rightarrow> real \<Rightarrow> real \<Rightarrow> py_exception + HoleCoords list" where
  "compute_hole_centers_fl hex_wrench_widths inner_spacing lengthwise_border'
       widthwise_border' max_short_handle_length =
     (let y_center = fl (widthwise_border' + max_short_handle_length);
          half_widths = map (\<lambda>w. fl (w / 2)) hex_wrench_widths
      in case half_widths of
           [] \<Rightarrow> Inl IndexError
         | first_half # _ \<Rightarrow>
             Inr (centers_loop_fl half_widths inner_spacing y_center
                    (fl (lengthwise_border' - first_half)) []))"

definition compute_holder_length_fl :: "real \<Rightarrow> real \<Rightarrow> real \<Rightarrow> real" where
  "compute_holder_length_fl last_hole_x_center hole_dia lengthwise_border' =
     fl (fl (last_hole_x_center + fl (hole_dia / 2)) + lengthwise_border')"

definition compute_holder_width_fl :: "real \<Rightarrow> real \<Rightarrow> real \<Rightarrow> real" where
  "compute_holder_width_fl max_handle_short_length max_hex_diameter width_border =
     fl (fl (fl (width_border + max_handle_short_length) + max_hex_diameter) + width_border)"

definition hole_details_without_coords_fl ::
  "HexWrench list \<Rightarrow> HexWrenchHolderParameters \<Rightarrow> HoleDetails list" where
  "hole_details_without_coords_fl hex_set' p =
     map (\<lambda>hw. compute_hole_detail_fl (size_mm hw)
                 (compute_hex_long_diameter_fl (size_f hw))
                 (hole_enlarge_factor p) (hole_enlarge_min p))
         hex_set'"

definition holder_length_of_fl ::
  "HoleDetails list \<Rightarrow> HexWrenchHolderParameters \<Rightarrow> py_exception + real" where
  "holder_length_of_fl hds p =
     (case py_last hds of
        Inl e \<Rightarrow> Inl e
      | Inr last_hd \<Rightarrow>
          (case py_attr_x (hole_coords last_hd) of
             Inl e \<Rightarrow> Inl e
           | Inr last_hole_x_center \<Rightarrow>
               (case py_last hds of
                  Inl e \<Rightarrow> Inl e
                | Inr last_hd' \<Rightarrow>
                    Inr (compute_holder_length_fl last_hole_x_center
                           (hex_long_diameter last_hd') (lengthwise_border p)))))"

definition pipeline_fl :: "HexWrench list \<Rightarrow> HexWrenchHolderParameters \<Rightarrow> fault + layout" where
  "pipeline_fl hex_set' p =
     (let hds = hole_details_without_coords_fl hex_set' p;
          hex_wrench_widths = hex_wrench_widths_of hex_set' hds
      in case py_max (map head_short_length hex_set') of
           Inl e \<Rightarrow> Inl (Assign_max_handle_short_length, e)
         | Inr max_handle_short_length \<Rightarrow>
      (case py_max (map hole_diameter hds) of
           Inl e \<Rightarrow> Inl (Assign_max_hole_diameter, e)
         | Inr max_hole_diameter \<Rightarrow>
      (case compute_hole_centers_fl hex_wrench_widths (lengthwise_inner_spacing p)
              (lengthwise_border p) (widthwise_border p) max_handle_short_length of
           Inl e \<Rightarrow> Inl (Assign_hole_centers, e)
         | Inr hole_centers \<Rightarrow>
      (let hds' = hole_details_with_coords hds hole_centers
       in case holder_length_of_fl hds' p of
           Inl e \<Rightarrow> Inl (Assign_holder_length, e)
         | Inr holder_length' \<Rightarrow>
      (case py_max (map head_short_length hex_set') of
           Inl e \<Rightarrow> Inl (Assign_holder_width, e)
         | Inr max_handle_short_length' \<Rightarrow>
             Inr \<lparr> hole_details = hds',
                   holder_length = holder_length',
                   holder_width =
                     compute_holder_width_fl max_handle_short_length' max_hole_diameter
                       (widthwise_border p) \<rparr>)))))"

text \<open>The parameters written in the script, as the doubles its literals denote.\<close>

definition hex_wrench_holder_parameters_fl :: HexWrenchHolderParameters where
  "hex_wrench_holder_parameters_fl =
     \<lparr> lengthwise_border = 5,
       lengthwise_inner_spacing = 5 / 2,
       widthwise_border = 5,
       height = 38,
       hole_enlarge_factor = fl (6 / 5),
       hole_enlarge_min = 1 \<rparr>"

section \<open>Facts about the helpers\<close>

lemma py_max2_eq_max: "py_max2 a b = max a b"
  by (simp add: py_max2_def max_def)

lemma py_max_step:
  "(\<lambda>item max_val. if item > max_val then item else max_val) = (max :: real \<Rightarrow> real \<Rightarrow> real)"
  by (auto simp add: fun_eq_iff max_def)

lemma py_max_eq_Max: "vs \<noteq> [] \<Longrightarrow> py_max vs = Inr (Max (set vs))"
  by (cases vs) (simp_all add: py_max_step Max.set_eq_fold del: set_simps)

subsection \<open>The loop of \<open>compute_hole_centers\<close>\<close>

text \<open>The list built so far is only ever extended, so the loop can be read from an empty one.\<close>

lemma centers_loop_acc:
  "centers_loop hs s yc pre acc = acc @ centers_loop hs s yc pre []"
proof (induction hs arbitrary: pre acc)
  case Nil
  show ?case by simp
next
  case (Cons h hs)
  show ?case
    using Cons.IH [of "pre + h + h + s" "acc @ [\<lparr>coord_x = pre + h, coord_y = yc\<rparr>]"]
          Cons.IH [of "pre + h + h + s" "[\<lparr>coord_x = pre + h, coord_y = yc\<rparr>]"]
    by (simp add: Let_def)
qed

lemma centers_loop_Cons:
  "centers_loop (h # hs) s yc pre [] =
     \<lparr>coord_x = pre + h, coord_y = yc\<rparr> # centers_loop hs s yc (pre + h + h + s) []"
  using centers_loop_acc [of hs s yc "pre + h + h + s" "[\<lparr>coord_x = pre + h, coord_y = yc\<rparr>]"]
  by (simp add: Let_def)

lemma length_centers_loop: "length (centers_loop hs s yc pre []) = length hs"
  by (induction hs arbitrary: pre) (simp_all add: centers_loop_Cons del: centers_loop.simps(2))

lemma coord_y_centers_loop:
  "c \<in> set (centers_loop hs s yc pre []) \<Longrightarrow> coord_y c = yc"
  by (induction hs arbitrary: pre)
     (auto simp add: centers_loop_Cons simp del: centers_loop.simps(2))

subsection \<open>\<open>compute_hole_centers\<close>\<close>

lemma compute_hole_centers_empty: "compute_hole_centers [] s lb wb m = Inl IndexError"
  by (simp add: compute_hole_centers_def)

lemma compute_hole_centers_nonempty:
  "ws \<noteq> [] \<Longrightarrow>
     compute_hole_centers ws s lb wb m =
       Inr (centers_loop (map (\<lambda>w. w / 2) ws) s (wb + m) (lb - ws ! 0 / 2) [])"
  by (cases ws) (simp_all add: compute_hole_centers_def Let_def del: centers_loop.simps)

lemma compute_hole_centers_Inr:
  assumes "compute_hole_centers ws s lb wb m = Inr cs"
  shows "ws \<noteq> []"
    and "cs = centers_loop (map (\<lambda>w. w / 2) ws) s (wb + m) (lb - ws ! 0 / 2) []"
proof -
  show ne: "ws \<noteq> []"
    using assms by (auto simp add: compute_hole_centers_empty)
  show "cs = centers_loop (map (\<lambda>w. w / 2) ws) s (wb + m) (lb - ws ! 0 / 2) []"
    using assms compute_hole_centers_nonempty [OF ne, of s lb wb m] by simp
qed

lemma compute_hole_centers_length:
  "compute_hole_centers ws s lb wb m = Inr cs \<Longrightarrow> length cs = length ws"
  using compute_hole_centers_Inr(2) [of ws s lb wb m cs] by (simp add: length_centers_loop)

lemma compute_hole_centers_coord_y:
  "compute_hole_centers ws s lb wb m = Inr cs \<Longrightarrow> c \<in> set cs \<Longrightarrow> coord_y c = wb + m"
  using compute_hole_centers_Inr(2) [of ws s lb wb m cs] coord_y_centers_loop by blast

subsection \<open>The script body on a wrench set that is not empty\<close>

lemma length_hole_details_without_coords:
  "length (hole_details_without_coords hs p) = length hs"
  by (simp add: hole_details_without_coords_def)

lemma length_hex_wrench_widths_of:
  "length (hex_wrench_widths_of hs (hole_details_without_coords hs p)) = length hs"
  by (simp add: hex_wrench_widths_of_def length_hole_details_without_coords)

lemma hole_details_with_coords_maps:
  assumes "length hds = length cs"
  shows "map hex_size (hole_details_with_coords hds cs) = map hex_size hds"
    and "map hex_long_diameter (hole_details_with_coords hds cs) = map hex_long_diameter hds"
    and "map hole_diameter (hole_details_with_coords hds cs) = map hole_diameter hds"
    and "map hole_coords (hole_details_with_coords hds cs) = map Some cs"
  using assms
  by (induction hds cs rule: list_induct2) (simp_all add: hole_details_with_coords_def)

lemma holder_length_of_with_coords:
  assumes "hds \<noteq> []" and "length cs = length hds"
  shows "holder_length_of (hole_details_with_coords hds cs) p =
           Inr (compute_holder_length (coord_x (last cs)) (hex_long_diameter (last hds))
                  (lengthwise_border p))"
proof -
  from assms have ne: "zip hds cs \<noteq> []"
    by (cases hds; cases cs) auto
  then obtain z zs where z: "hole_details_with_coords hds cs = z # zs"
    by (cases "zip hds cs") (auto simp add: hole_details_with_coords_def)
  have l: "last (hole_details_with_coords hds cs) =
        \<lparr> hex_size = hex_size (last hds), hex_long_diameter = hex_long_diameter (last hds),
          hole_diameter = hole_diameter (last hds), hole_coords = Some (last cs) \<rparr>"
    using ne assms by (simp add: hole_details_with_coords_def last_map last_zip)
  have "py_last (hole_details_with_coords hds cs) = Inr (last (hole_details_with_coords hds cs))"
    by (simp add: z)
  then show ?thesis
    by (simp add: holder_length_of_def l)
qed

text \<open>
  On a wrench set that is not empty no statement raises; the layout is the one below,
  where \<open>cs\<close> is what \<open>compute_hole_centers\<close> returned.
\<close>

lemma pipeline_nonempty:
  assumes "hs \<noteq> []"
  obtains cs where
    "compute_hole_centers (hex_wrench_widths_of hs (hole_details_without_coords hs p))
       (lengthwise_inner_spacing p) (lengthwise_border p) (widthwise_border p)
       (Max (set (map head_short_length hs))) = Inr cs"
    and "length cs = length hs"
    and "pipeline hs p =
       Inr \<lparr> hole_details = hole_details_with_coords (hole_details_without_coords hs p) cs,
             holder_length =
               compute_holder_length (coord_x (last cs))
                 (hex_long_diameter (last (hole_details_without_coords hs p)))
                 (lengthwise_border p),
             holder_width =
               compute_holder_width (Max (set (map head_short_length hs)))
                 (Max (set (map hole_diameter (hole_details_without_coords hs p))))
                 (widthwise_border p) \<rparr>"
proof -
  let ?hds = "hole_details_without_coords hs p"
  let ?ws = "hex_wrench_widths_of hs ?hds"
  let ?m = "Max (set (map head_short_length hs))"
  from assms have m1: "py_max (map head_short_length hs) = Inr ?m"
    by (intro py_max_eq_Max) simp
  from assms have hds: "?hds \<noteq> []"
    by (simp add: hole_details_without_coords_def)
  then have m2: "py_max (map hole_diameter ?hds) = Inr (Max (set (map hole_diameter ?hds)))"
    by (intro py_max_eq_Max) simp
  from assms have "?ws \<noteq> []"
    using length_hex_wrench_widths_of [of hs p] by (metis length_0_conv)
  then obtain cs where c: "compute_hole_centers ?ws (lengthwise_inner_spacing p)
      (lengthwise_border p) (widthwise_border p) ?m = Inr cs"
    using compute_hole_centers_nonempty by blast
  then have len: "length cs = length hs"
    by (simp add: compute_hole_centers_length length_hex_wrench_widths_of)
  have l: "holder_length_of (hole_details_with_coords ?hds cs) p =
      Inr (compute_holder_length (coord_x (last cs))
             (hex_long_diameter (last ?hds)) (lengthwise_border p))"
    using hds len by (intro holder_length_of_with_coords)
      (simp_all add: length_hole_details_without_coords)
  have "pipeline hs p =
       Inr \<lparr> hole_details = hole_details_with_coords ?hds cs,
             holder_length =
               compute_holder_length (coord_x (last cs)) (hex_long_diameter (last ?hds))
                 (lengthwise_border p),
             holder_width =
               compute_holder_width ?m (Max (set (map hole_diameter ?hds)))
                 (widthwise_border p) \<rparr>"
    unfolding pipeline_def Let_def by (simp only: m1 m2 c l sum.case)
  with c len show thesis
    by (rule that)
qed

lemma last_hole_details_with_coords:
  assumes "hds \<noteq> []" and "length cs = length hds"
  shows "hole_details_with_coords hds cs \<noteq> []"
    and "last (hole_details_with_coords hds cs) =
        \<lparr> hex_size = hex_size (last hds), hex_long_diameter = hex_long_diameter (last hds),
          hole_diameter = hole_diameter (last hds), hole_coords = Some (last cs) \<rparr>"
proof -
  from assms have ne: "zip hds cs \<noteq> []"
    by (cases hds; cases cs) auto
  then show "hole_details_with_coords hds cs \<noteq> []"
    by (simp add: hole_details_with_coords_def)
  show "last (hole_details_with_coords hds cs) =
        \<lparr> hex_size = hex_size (last hds), hex_long_diameter = hex_long_diameter (last hds),
          hole_diameter = hole_diameter (last hds), hole_coords = Some (last cs) \<rparr>"
    using ne assms by (simp add: hole_details_with_coords_def last_map last_zip)
qed


lemma hex_size_hole_details_without_coords:
  "map hex_size (hole_details_without_coords hs p) = map size_mm hs"
  by (simp add: hole_details_without_coords_def compute_hole_detail_def)

lemma hole_row_not_None: "hole_coords d = Some c \<Longrightarrow> \<not> is_Row_None (hole_row d)"
  by simp

lemma hex_set_nonempty: "hex_set \<noteq> []"
  by (simp add: hex_set_def)

section \<open>Facts about rounding\<close>

lemma binade_eq:
  assumes "2 ^ 52 \<le> \<bar>v\<bar> * 2 ^ k" and "\<bar>v\<bar> * 2 ^ k < 2 ^ 53" and "k \<le> 1074"
  shows "binade v = 52 - int k"
proof -
  have pos: "0 < \<bar>v\<bar>"
    using assms(1) by (smt (verit) mult_eq_0_iff zero_less_power abs_ge_zero)
  have "2 powr (52 - int k) = 2 ^ 52 / 2 ^ k"
    by (simp add: powr_diff flip: powr_realpow)
  also have "\<dots> \<le> \<bar>v\<bar>"
    using assms(1) by (simp add: divide_le_eq)
  finally have lo: "2 powr (52 - int k) \<le> \<bar>v\<bar>" .
  have "2 powr (52 - int k + 1) = 2 ^ 53 / 2 ^ k"
    by (simp add: powr_diff powr_add flip: powr_realpow)
  moreover have "\<bar>v\<bar> < 2 ^ 53 / 2 ^ k"
    using assms(2) by (simp add: less_divide_eq)
  ultimately have hi: "\<bar>v\<bar> < 2 powr (52 - int k + 1)"
    by simp
  from lo hi pos have "\<lfloor>log 2 \<bar>v\<bar>\<rfloor> = 52 - int k"
    by (simp add: floor_log_eq_powr_iff)
  with assms(3) show ?thesis
    by (simp add: binade_def)
qed

text \<open>
  How to compute \<open>fl\<close>: scale \<open>v\<close> by the power of two that brings it between \<open>2 ^ 52\<close>
  and \<open>2 ^ 53\<close>, round to an integer, scale back.
\<close>

lemma fl_eval:
  assumes "2 ^ 52 \<le> \<bar>v\<bar> * 2 ^ k" and "\<bar>v\<bar> * 2 ^ k < 2 ^ 53" and "k \<le> 1074"
  shows "fl v = of_int (rne (v * 2 ^ k)) / 2 ^ k"
proof -
  have b: "binade v = 52 - int k"
    using assms by (rule binade_eq)
  have "v \<noteq> 0"
    using assms(1) by auto
  then show ?thesis
    by (simp add: fl_def b power_int_minus field_simps)
qed

lemma fl_0: "fl 0 = 0"
  by (simp add: fl_def)

lemma rne_nearest:
  assumes "of_int z - 1 / 2 < v" and "v < of_int z + 1 / 2"
  shows "rne v = z"
proof (cases "of_int z \<le> v")
  case True
  with assms(2) have "\<lfloor>v\<rfloor> = z"
    by (intro floor_unique) simp_all
  with assms(2) show ?thesis
    by (simp add: rne_def)
next
  case False
  with assms(1) have f: "\<lfloor>v\<rfloor> = z - 1"
    by (intro floor_unique) simp_all
  from assms(1) have "1 / 2 < v - of_int (z - 1)"
    by simp
  then show ?thesis
    unfolding rne_def f Let_def by simp
qed

text \<open>\<open>math.sqrt(3)\<close> is the double nearest to the square root of 3.\<close>

lemma fl_sqrt_3: "fl (sqrt 3) = 3900231685776981 / 2251799813685248"
proof -
  have lo: "7800463371553962 - 1 / 2 < sqrt 3 * 2 ^ 52"
  proof -
    have "((7800463371553962 - 1 / 2) / 2 ^ 52)\<^sup>2 < (3::real)"
      by (simp add: power2_eq_square)
    then have "(7800463371553962 - 1 / 2) / 2 ^ 52 < sqrt 3"
      by (rule real_less_rsqrt)
    then show ?thesis
      by (simp add: divide_less_eq)
  qed
  have hi: "sqrt 3 * 2 ^ 52 < 7800463371553962 + 1 / 2"
  proof -
    have "(3::real) < ((7800463371553962 + 1 / 2) / 2 ^ 52)\<^sup>2"
      by (simp add: power2_eq_square)
    then have "sqrt 3 < (7800463371553962 + 1 / 2) / 2 ^ 52"
      by (intro real_less_lsqrt) simp_all
    then show ?thesis
      by (simp add: less_divide_eq)
  qed
  have r: "rne (sqrt 3 * 2 ^ 52) = 7800463371553962"
    using lo hi by (intro rne_nearest) simp_all
  have "2 ^ 52 \<le> \<bar>sqrt 3\<bar> * 2 ^ 52" and "\<bar>sqrt 3\<bar> * 2 ^ 52 < 2 ^ 53"
    using lo hi by simp_all
  then have "fl (sqrt 3) = of_int (rne (sqrt 3 * 2 ^ 52)) / 2 ^ 52"
    by (intro fl_eval) simp_all
  then show ?thesis
    unfolding r by simp
qed

lemma rne_error: "\<bar>of_int (rne v) - v\<bar> \<le> 1 / 2"
proof -
  have "of_int \<lfloor>v\<rfloor> \<le> v" and "v < of_int \<lfloor>v\<rfloor> + 1"
    by linarith+
  then show ?thesis
    unfolding rne_def Let_def by (auto simp add: abs_le_iff)
qed

text \<open>Rounding moves a number by at most half a unit in the last place.\<close>

lemma fl_error: "\<bar>fl v - v\<bar> \<le> half_ulp v"
proof (cases "v = 0")
  case True
  then show ?thesis
    by (simp add: fl_def half_ulp_def)
next
  case False
  let ?e = "binade v"
  let ?y = "v * 2 powi (52 - ?e)"
  have sc: "?y * 2 powi (?e - 52) = v"
    by (simp add: power_int_diff field_simps)
  have "fl v - v = (of_int (rne ?y) - ?y) * 2 powi (?e - 52)"
    using False sc by (simp add: fl_def left_diff_distrib)
  then have "\<bar>fl v - v\<bar> = \<bar>of_int (rne ?y) - ?y\<bar> * 2 powi (?e - 52)"
    by (simp add: abs_mult)
  also have "\<dots> \<le> 1 / 2 * 2 powi (?e - 52)"
    by (intro mult_right_mono rne_error) simp
  also have "\<dots> = half_ulp v"
    by (simp add: half_ulp_def power_int_diff)
  finally show ?thesis .
qed

lemma three_roundings:
  fixes a b c d :: real
  defines "t1 \<equiv> a + b" and "t2 \<equiv> fl (a + b) + c" and "t3 \<equiv> fl (fl (a + b) + c) + d"
  shows "\<bar>fl t3 - a - (b + c + d)\<bar> \<le> half_ulp t1 + half_ulp t2 + half_ulp t3"
proof -
  have "fl t3 - a - (b + c + d) = (fl t3 - t3) + (fl t2 - t2) + (fl t1 - t1)"
    by (simp add: t1_def t2_def t3_def)
  also have "\<bar>\<dots>\<bar> \<le> \<bar>fl t3 - t3\<bar> + \<bar>fl t2 - t2\<bar> + \<bar>fl t1 - t1\<bar>"
    by linarith
  also have "\<dots> \<le> half_ulp t3 + half_ulp t2 + half_ulp t1"
    by (intro add_mono fl_error)
  finally show ?thesis
    by simp
qed

subsection \<open>The loop of \<open>compute_hole_centers_fl\<close>\<close>

lemma centers_loop_fl_acc:
  "centers_loop_fl hs s yc pre acc = acc @ centers_loop_fl hs s yc pre []"
proof (induction hs arbitrary: pre acc)
  case Nil
  show ?case by simp
next
  case (Cons h hs)
  let ?pre = "fl (fl (fl (pre + h) + h) + s)"
  let ?c = "\<lparr>coord_x = fl (pre + h), coord_y = yc\<rparr>"
  show ?case
    using Cons.IH [of ?pre "acc @ [?c]"] Cons.IH [of ?pre "[?c]"]
    by (simp add: Let_def)
qed

lemma centers_loop_fl_Cons:
  "centers_loop_fl (h # hs) s yc pre [] =
     \<lparr>coord_x = fl (pre + h), coord_y = yc\<rparr>
       # centers_loop_fl hs s yc (fl (fl (fl (pre + h) + h) + s)) []"
  using centers_loop_fl_acc
    [of hs s yc "fl (fl (fl (pre + h) + h) + s)" "[\<lparr>coord_x = fl (pre + h), coord_y = yc\<rparr>]"]
  by (simp add: Let_def)

lemma length_centers_loop_fl: "length (centers_loop_fl hs s yc pre []) = length hs"
  by (induction hs arbitrary: pre)
     (simp_all add: centers_loop_fl_Cons del: centers_loop_fl.simps(2))

text \<open>
  Each centre after the first is obtained from the one before it by three rounded
  additions.
\<close>

lemma centers_loop_fl_adjacent:
  "Suc i < length hs \<Longrightarrow>
     coord_x (centers_loop_fl hs s yc pre [] ! Suc i)
       = fl (fl (fl (coord_x (centers_loop_fl hs s yc pre [] ! i) + hs ! i) + s) + hs ! Suc i)"
proof (induction hs arbitrary: pre i)
  case Nil
  then show ?case by simp
next
  case (Cons h hs)
  then obtain h' hs' where hs: "hs = h' # hs'"
    by (cases hs) auto
  show ?case
  proof (cases i)
    case 0
    then show ?thesis
      by (simp add: hs centers_loop_fl_Cons del: centers_loop_fl.simps(2))
  next
    case (Suc j)
    with Cons.prems have "Suc j < length hs" by simp
    from Cons.IH [OF this, of "fl (fl (fl (pre + h) + h) + s)"] show ?thesis
      by (simp add: Suc centers_loop_fl_Cons del: centers_loop_fl.simps(2))
  qed
qed

subsection \<open>\<open>compute_hole_centers_fl\<close>\<close>

lemma compute_hole_centers_fl_empty: "compute_hole_centers_fl [] s lb wb m = Inl IndexError"
  by (simp add: compute_hole_centers_fl_def)

lemma compute_hole_centers_fl_nonempty:
  "ws \<noteq> [] \<Longrightarrow>
     compute_hole_centers_fl ws s lb wb m =
       Inr (centers_loop_fl (map (\<lambda>w. fl (w / 2)) ws) s (fl (wb + m))
              (fl (lb - fl (ws ! 0 / 2))) [])"
  by (cases ws) (simp_all add: compute_hole_centers_fl_def Let_def del: centers_loop_fl.simps)

lemma compute_hole_centers_fl_Inr:
  assumes "compute_hole_centers_fl ws s lb wb m = Inr cs"
  shows "ws \<noteq> []"
    and "cs = centers_loop_fl (map (\<lambda>w. fl (w / 2)) ws) s (fl (wb + m))
              (fl (lb - fl (ws ! 0 / 2))) []"
proof -
  show ne: "ws \<noteq> []"
    using assms by (auto simp add: compute_hole_centers_fl_empty)
  show "cs = centers_loop_fl (map (\<lambda>w. fl (w / 2)) ws) s (fl (wb + m))
              (fl (lb - fl (ws ! 0 / 2))) []"
    using assms compute_hole_centers_fl_nonempty [OF ne, of s lb wb m] by simp
qed

lemma compute_hole_centers_fl_length:
  "compute_hole_centers_fl ws s lb wb m = Inr cs \<Longrightarrow> length cs = length ws"
  using compute_hole_centers_fl_Inr(2) [of ws s lb wb m cs]
  by (simp add: length_centers_loop_fl)

lemma compute_hole_centers_fl_first:
  assumes "compute_hole_centers_fl ws s lb wb m = Inr cs"
  shows "coord_x (cs ! 0) = fl (fl (lb - fl (ws ! 0 / 2)) + fl (ws ! 0 / 2))"
proof -
  from assms have "ws \<noteq> []"
    by (rule compute_hole_centers_fl_Inr(1))
  then obtain w ws' where ws: "ws = w # ws'"
    by (cases ws) auto
  show ?thesis
    unfolding compute_hole_centers_fl_Inr(2) [OF assms]
    by (simp add: ws centers_loop_fl_Cons del: centers_loop_fl.simps(2))
qed

lemma compute_hole_centers_fl_adjacent:
  assumes "compute_hole_centers_fl ws s lb wb m = Inr cs" and "Suc i < length ws"
  shows "coord_x (cs ! Suc i)
           = fl (fl (fl (coord_x (cs ! i) + fl (ws ! i / 2)) + s) + fl (ws ! Suc i / 2))"
proof -
  from assms(2) have "Suc i < length (map (\<lambda>w. fl (w / 2)) ws)"
    by simp
  from centers_loop_fl_adjacent [OF this, of s "fl (wb + m)" "fl (lb - fl (ws ! 0 / 2))"] assms(2)
  show ?thesis
    unfolding compute_hole_centers_fl_Inr(2) [OF assms(1)] by simp
qed

subsection \<open>The script body in double arithmetic\<close>

lemma length_hole_details_without_coords_fl:
  "length (hole_details_without_coords_fl hs p) = length hs"
  by (simp add: hole_details_without_coords_fl_def)

lemma holder_length_of_fl_with_coords:
  assumes "hds \<noteq> []" and "length cs = length hds"
  shows "holder_length_of_fl (hole_details_with_coords hds cs) p =
           Inr (compute_holder_length_fl (coord_x (last cs)) (hex_long_diameter (last hds))
                  (lengthwise_border p))"
proof -
  note l = last_hole_details_with_coords [OF assms]
  from l(1) obtain z zs where "hole_details_with_coords hds cs = z # zs"
    by (cases "hole_details_with_coords hds cs") auto
  then have "py_last (hole_details_with_coords hds cs)
      = Inr (last (hole_details_with_coords hds cs))"
    by simp
  then show ?thesis
    by (simp add: holder_length_of_fl_def l(2))
qed

lemma pipeline_fl_nonempty:
  assumes "hs \<noteq> []"
  obtains cs where
    "compute_hole_centers_fl (hex_wrench_widths_of hs (hole_details_without_coords_fl hs p))
       (lengthwise_inner_spacing p) (lengthwise_border p) (widthwise_border p)
       (Max (set (map head_short_length hs))) = Inr cs"
    and "length cs = length hs"
    and "pipeline_fl hs p =
       Inr \<lparr> hole_details = hole_details_with_coords (hole_details_without_coords_fl hs p) cs,
             holder_length =
               compute_holder_length_fl (coord_x (last cs))
                 (hex_long_diameter (last (hole_details_without_coords_fl hs p)))
                 (lengthwise_border p),
             holder_width =
               compute_holder_width_fl (Max (set (map head_short_length hs)))
                 (Max (set (map hole_diameter (hole_details_without_coords_fl hs p))))
                 (widthwise_border p) \<rparr>"
proof -
  let ?hds = "hole_details_without_coords_fl hs p"
  let ?ws = "hex_wrench_widths_of hs ?hds"
  let ?m = "Max (set (map head_short_length hs))"
  from assms have m1: "py_max (map head_short_length hs) = Inr ?m"
    by (intro py_max_eq_Max) simp
  from assms have hds: "?hds \<noteq> []"
    by (simp add: hole_details_without_coords_fl_def)
  then have m2: "py_max (map hole_diameter ?hds) = Inr (Max (set (map hole_diameter ?hds)))"
    by (intro py_max_eq_Max) simp
  have "length ?ws = length hs"
    by (simp add: hex_wrench_widths_of_def length_hole_details_without_coords_fl)
  with assms have "?ws \<noteq> []"
    by (metis length_0_conv)
  then obtain cs where c: "compute_hole_centers_fl ?ws (lengthwise_inner_spacing p)
      (lengthwise_border p) (widthwise_border p) ?m = Inr cs"
    using compute_hole_centers_fl_nonempty by blast
  then have "length cs = length ?ws"
    by (rule compute_hole_centers_fl_length)
  then have len: "length cs = length hs"
    by (simp add: hex_wrench_widths_of_def length_hole_details_without_coords_fl)
  have l: "holder_length_of_fl (hole_details_with_coords ?hds cs) p =
      Inr (compute_holder_length_fl (coord_x (last cs))
             (hex_long_diameter (last ?hds)) (lengthwise_border p))"
    using hds len by (intro holder_length_of_fl_with_coords)
      (simp_all add: length_hole_details_without_coords_fl)
  have "pipeline_fl hs p =
       Inr \<lparr> hole_details = hole_details_with_coords ?hds cs,
             holder_length =
               compute_holder_length_fl (coord_x (last cs)) (hex_long_diameter (last ?hds))
                 (lengthwise_border p),
             holder_width =
               compute_holder_width_fl ?m (Max (set (map hole_diameter ?hds)))
                 (widthwise_border p) \<rparr>"
    unfolding pipeline_fl_def Let_def by (simp only: m1 m2 c l sum.case)
  with c len show thesis
    by (rule that)
qed

lemma pipeline_fl_run:
  assumes "hs \<noteq> []"
  obtains r where "pipeline_fl hs p = Inr r"
    and "length (hole_details r) = length hs"
    and "map hole_diameter (hole_details r)
           = map hole_diameter (hole_details_without_coords_fl hs p)"
    and "holder_width r =
           compute_holder_width_fl (Max (set (map head_short_length hs)))
             (Max (set (map hole_diameter (hole_details_without_coords_fl hs p))))
             (widthwise_border p)"
proof -
  let ?hds = "hole_details_without_coords_fl hs p"
  from assms obtain cs where len: "length cs = length hs"
    and run: "pipeline_fl hs p =
       Inr \<lparr> hole_details = hole_details_with_coords ?hds cs,
             holder_length =
               compute_holder_length_fl (coord_x (last cs)) (hex_long_diameter (last ?hds))
                 (lengthwise_border p),
             holder_width =
               compute_holder_width_fl (Max (set (map head_short_length hs)))
                 (Max (set (map hole_diameter ?hds))) (widthwise_border p) \<rparr>"
    by (rule pipeline_fl_nonempty)
  have len': "length ?hds = length cs"
    using len by (simp add: length_hole_details_without_coords_fl)
  have a: "length (hole_details_with_coords ?hds cs) = length hs"
    using len by (simp add: hole_details_with_coords_def length_hole_details_without_coords_fl)
  have b: "map hole_diameter (hole_details_with_coords ?hds cs) = map hole_diameter ?hds"
    using len' by (rule hole_details_with_coords_maps(3))
  show thesis
  proof (rule that)
    show "pipeline_fl hs p =
       Inr \<lparr> hole_details = hole_details_with_coords ?hds cs,
             holder_length =
               compute_holder_length_fl (coord_x (last cs)) (hex_long_diameter (last ?hds))
                 (lengthwise_border p),
             holder_width =
               compute_holder_width_fl (Max (set (map head_short_length hs)))
                 (Max (set (map hole_diameter ?hds))) (widthwise_border p) \<rparr>"
      by (rule run)
  qed (simp_all only: layout.select_convs a b)
qed

section \<open>The hole diameter\<close>

text \<open>
  C5. \<open>compute_hole_diameter\<close> returns the larger of \<open>long_dia + enlarge_min\<close> and
  \<open>long_dia * enlarge_factor\<close>; with a factor of at least 1 and a minimum of at least 0
  the hole is never smaller than the long diameter, whatever the long diameter.
\<close>

theorem compute_hole_diameter_spec:
  "compute_hole_diameter d f m = max (d + m) (d * f)
   \<and> (1 \<le> f \<longrightarrow> 0 \<le> m \<longrightarrow> d \<le> compute_hole_diameter d f m)"
  by (simp add: compute_hole_diameter_def py_max2_eq_max max_def)

theorem compute_hole_diameter_spec_witness:
  "compute_hole_diameter 10 (6 / 5) 1 = max (10 + 1) (10 * (6 / 5))
   \<and> (1::real) \<le> 6 / 5 \<and> (0::real) \<le> 1
   \<and> 10 \<le> compute_hole_diameter 10 (6 / 5) 1
   \<and> compute_hole_diameter 10 (6 / 5) 1 = 12"
  using compute_hole_diameter_spec [of 10 "6 / 5" 1]
  by (simp add: compute_hole_diameter_def py_max2_def)

text \<open>
  C9. For a long diameter that is not negative, \<open>compute_hole_diameter\<close> does not
  decrease when the enlargement factor grows and the minimum stays, nor when the
  minimum grows and the factor stays.
\<close>

theorem compute_hole_diameter_mono:
  "(0 \<le> d \<longrightarrow> f1 \<le> f2 \<longrightarrow>
      compute_hole_diameter d f1 m \<le> compute_hole_diameter d f2 m)
   \<and> (m1 \<le> m2 \<longrightarrow>
      compute_hole_diameter d f m1 \<le> compute_hole_diameter d f m2)"
proof (intro conjI impI)
  assume "0 \<le> d" and "f1 \<le> f2"
  then have "d * f1 \<le> d * f2"
    by (simp add: mult_left_mono)
  then show "compute_hole_diameter d f1 m \<le> compute_hole_diameter d f2 m"
    by (simp add: compute_hole_diameter_def py_max2_eq_max max_def)
next
  assume "m1 \<le> m2"
  then show "compute_hole_diameter d f m1 \<le> compute_hole_diameter d f m2"
    by (simp add: compute_hole_diameter_def py_max2_eq_max max_def)
qed

theorem compute_hole_diameter_mono_witness:
  "(0::real) \<le> 10 \<and> (11 / 10 ::real) \<le> 6 / 5 \<and> (1 / 2 ::real) \<le> 3
   \<and> compute_hole_diameter 10 (11 / 10) 1 \<le> compute_hole_diameter 10 (6 / 5) 1
   \<and> compute_hole_diameter 10 (6 / 5) (1 / 2) \<le> compute_hole_diameter 10 (6 / 5) 3"
  using compute_hole_diameter_mono [of 10 "11 / 10" "6 / 5" 1 "1 / 2" 3 "6 / 5"]
  by simp

section \<open>Hole placement\<close>

text \<open>
  C1, as the specification words it, does not hold: the loop starts from
  \<open>lengthwise_border - half_widths[0]\<close> and adds the half width back, so it is the
  centre of the first hole that is put at \<open>lengthwise_border\<close>, and the left edge of its
  width lies half a width before it. For the single width 24 with border 5 (the
  specification's own one-wrench scenario; every operation is exact there) the centre
  is at 5 and the left edge at -7.
\<close>

theorem first_hole_left_edge_counterexample:
  "compute_hole_centers_fl [24] (5 / 2) 5 5 36 = Inr [\<lparr>coord_x = 5, coord_y = 41\<rparr>]
   \<and> fl (coord_x ([\<lparr>coord_x = 5, coord_y = 41\<rparr>] ! 0) - fl ([24] ! 0 / 2)) = - 7
   \<and> coord_x ([\<lparr>coord_x = 5, coord_y = 41\<rparr>] ! 0) - fl ([24] ! 0 / 2) \<noteq> (5::real)"
proof -
  note ev = fl_eval [where k = 47] fl_eval [where k = 49] fl_eval [where k = 50]
  have "compute_hole_centers_fl [24] (5 / 2) 5 5 36 = Inr [\<lparr>coord_x = 5, coord_y = 41\<rparr>]"
    by (simp add: compute_hole_centers_fl_def centers_loop_fl_Cons ev rne_def Let_def
          del: centers_loop_fl.simps(2))
  moreover have "fl (24 / 2) = 12"
    by (simp add: ev rne_def Let_def)
  moreover have "fl (5 - 12) = - 7"
    by (simp add: ev rne_def Let_def)
  ultimately show ?thesis
    by simp
qed

text \<open>
  Nor is the first centre always exactly the border: with border 1.2 and width 6.4 the
  subtraction \<open>1.2 - 3.2\<close> rounds to \<open>-2\<close>, and the centre comes out as
  1.2000000000000002, one unit in the last place above 1.2.
\<close>

lemma first_hole_center_inexact:
  "fl (6 / 5) = 5404319552844595 / 4503599627370496
   \<and> fl (32 / 5) = 3602879701896397 / 562949953421312
   \<and> compute_hole_centers_fl [fl (32 / 5)] (5 / 2) (fl (6 / 5)) 5 36
        = Inr [\<lparr>coord_x = 1351079888211149 / 1125899906842624, coord_y = 41\<rparr>]
   \<and> (1351079888211149 / 1125899906842624 :: real) \<noteq> fl (6 / 5)"
proof -
  note ev = fl_eval [where k = 47] fl_eval [where k = 50] fl_eval [where k = 51]
    fl_eval [where k = 52]
  have a: "fl (6 / 5) = 5404319552844595 / 4503599627370496"
    by (simp add: ev rne_def Let_def)
  have b: "fl (32 / 5) = 3602879701896397 / 562949953421312"
    by (simp add: ev rne_def Let_def)
  have "compute_hole_centers_fl [3602879701896397 / 562949953421312] (5 / 2)
          (5404319552844595 / 4503599627370496) 5 36
        = Inr [\<lparr>coord_x = 1351079888211149 / 1125899906842624, coord_y = 41\<rparr>]"
    by (simp add: compute_hole_centers_fl_def centers_loop_fl_Cons ev rne_def Let_def
          del: centers_loop_fl.simps(2))
  then show ?thesis
    unfolding a b by simp
qed

text \<open>
  C1, amended. For every list of wrench widths that is not empty,
  \<open>compute_hole_centers\<close> returns one centre per width, and the x of the first centre is
  the double that \<open>(lengthwise_border - half_width[0]) + half_width[0]\<close> evaluates to. It
  is the centre of the first hole, not its left edge, that lies at the border: the
  centre differs from \<open>lengthwise_border\<close> by at most the rounding of the subtraction and
  of the addition, half a unit in the last place each, and is exactly
  \<open>lengthwise_border\<close> whenever the subtraction is exact.
\<close>

theorem first_hole_center_at_border:
  "ws \<noteq> [] \<Longrightarrow>
     (\<exists>cs. compute_hole_centers_fl ws s lb wb m = Inr cs
        \<and> length cs = length ws
        \<and> coord_x (cs ! 0) = fl (fl (lb - fl (ws ! 0 / 2)) + fl (ws ! 0 / 2))
        \<and> \<bar>coord_x (cs ! 0) - lb\<bar>
             \<le> half_ulp (lb - fl (ws ! 0 / 2))
               + half_ulp (fl (lb - fl (ws ! 0 / 2)) + fl (ws ! 0 / 2))
        \<and> (fl lb = lb \<longrightarrow> fl (lb - fl (ws ! 0 / 2)) = lb - fl (ws ! 0 / 2) \<longrightarrow>
              coord_x (cs ! 0) = lb))"
proof -
  let ?h = "fl (ws ! 0 / 2)"
  let ?t1 = "lb - ?h"
  let ?t2 = "fl ?t1 + ?h"
  assume "ws \<noteq> []"
  then obtain cs where cs: "compute_hole_centers_fl ws s lb wb m = Inr cs"
    using compute_hole_centers_fl_nonempty by blast
  then have len: "length cs = length ws"
    by (rule compute_hole_centers_fl_length)
  have x0: "coord_x (cs ! 0) = fl ?t2"
    using cs by (rule compute_hole_centers_fl_first)
  have "coord_x (cs ! 0) - lb = (fl ?t2 - ?t2) + (fl ?t1 - ?t1)"
    unfolding x0 by simp
  also have "\<bar>\<dots>\<bar> \<le> \<bar>fl ?t2 - ?t2\<bar> + \<bar>fl ?t1 - ?t1\<bar>"
    by linarith
  also have "\<dots> \<le> half_ulp ?t2 + half_ulp ?t1"
    by (intro add_mono fl_error)
  finally have bound: "\<bar>coord_x (cs ! 0) - lb\<bar> \<le> half_ulp ?t1 + half_ulp ?t2"
    by simp
  have "coord_x (cs ! 0) = lb" if "fl lb = lb" and "fl ?t1 = ?t1"
    unfolding x0 using that by simp
  with cs len x0 bound show ?thesis
    by blast
qed

theorem first_hole_center_at_border_witness:
  "[24, 24, 31] \<noteq> ([] :: real list)
   \<and> fl 5 = 5 \<and> fl (5 - fl ([24, 24, 31] ! 0 / 2)) = 5 - fl ([24, 24, 31] ! 0 / 2)
   \<and> (\<exists>cs. compute_hole_centers_fl [24, 24, 31] (5 / 2) 5 5 46 = Inr cs
        \<and> length cs = 3
        \<and> coord_x (cs ! 0) = 5)"
proof -
  note ev = fl_eval [where k = 49] fl_eval [where k = 50]
  have a: "fl 5 = 5"
    by (simp add: ev rne_def Let_def)
  have "fl (24 / 2) = 12"
    by (simp add: ev rne_def Let_def)
  moreover have "fl (5 - 12) = - 7"
    by (simp add: ev rne_def Let_def)
  ultimately have b: "fl (5 - fl ([24, 24, 31] ! 0 / 2)) = 5 - fl ([24, 24, 31] ! 0 / 2)"
    by simp
  from first_hole_center_at_border [of "[24, 24, 31]" "5 / 2" 5 5 46] a b
  show ?thesis
    by auto
qed

text \<open>
  C2, as the specification words it, does not hold for every list: each centre is
  reached from the one before it by three additions, each rounded, and the difference
  of two centres need not be the sum of the three terms. For the widths 24.1 and 32.2,
  spacing 2.5 and border 5 the centres are 5 and 35.650000000000006; their difference
  is 30.650000000000006, while \<open>half_width[0] + inner_spacing + half_width[1]\<close> is
  30.650000000000002, whether the two sides are taken as exact numbers or evaluated in
  doubles.
\<close>

theorem adjacent_centers_distance_counterexample:
  "fl (241 / 10) = 3391773469363405 / 140737488355328
   \<and> fl (161 / 5) = 2265873562520781 / 70368744177664
   \<and> compute_hole_centers_fl [fl (241 / 10), fl (161 / 5)] (5 / 2) 5 5 36
        = Inr [\<lparr>coord_x = 5, coord_y = 41\<rparr>,
               \<lparr>coord_x = 1254322864966861 / 35184372088832, coord_y = 41\<rparr>]
   \<and> 1254322864966861 / 35184372088832 - 5
        \<noteq> fl (fl (241 / 10) / 2) + 5 / 2 + fl (fl (161 / 5) / 2)
   \<and> fl (1254322864966861 / 35184372088832 - 5)
        \<noteq> fl (fl (fl (fl (241 / 10) / 2) + 5 / 2) + fl (fl (161 / 5) / 2))"
proof -
  note ev = fl_eval [where k = 47] fl_eval [where k = 48] fl_eval [where k = 49]
    fl_eval [where k = 50]
  have w0: "fl (241 / 10) = 3391773469363405 / 140737488355328"
    by (simp add: ev rne_def Let_def)
  have w1: "fl (161 / 5) = 2265873562520781 / 70368744177664"
    by (simp add: ev rne_def Let_def)
  have h0: "fl (3391773469363405 / 140737488355328 / 2) = 3391773469363405 / 281474976710656"
    by (simp add: ev rne_def Let_def)
  have h1: "fl (2265873562520781 / 70368744177664 / 2) = 2265873562520781 / 140737488355328"
    by (simp add: ev rne_def Let_def)
  have run: "compute_hole_centers_fl
          [3391773469363405 / 140737488355328, 2265873562520781 / 70368744177664] (5 / 2) 5 5 36
        = Inr [\<lparr>coord_x = 5, coord_y = 41\<rparr>,
               \<lparr>coord_x = 1254322864966861 / 35184372088832, coord_y = 41\<rparr>]"
    by (simp add: compute_hole_centers_fl_def centers_loop_fl_Cons ev rne_def Let_def
          del: centers_loop_fl.simps(2))
  have d: "fl (1254322864966861 / 35184372088832 - 5) = 1078401004522701 / 35184372088832"
    by (simp add: ev rne_def Let_def)
  have s1: "fl (3391773469363405 / 281474976710656 + 5 / 2) = 4095460911140045 / 281474976710656"
    by (simp add: ev rne_def Let_def)
  have s2: "fl (4095460911140045 / 281474976710656 + 2265873562520781 / 140737488355328)
      = 8627208036181607 / 281474976710656"
    by (simp add: ev rne_def Let_def)
  show ?thesis
    unfolding w0 w1 h0 h1 run d s1 s2 by simp
qed

text \<open>
  C2, amended. For every list of wrench widths that is not empty,
  \<open>compute_hole_centers\<close> returns one centre per width, and the x of each centre after
  the first is the double that
  \<open>((x_center[i] + half_width[i]) + inner_spacing) + half_width[i+1]\<close> evaluates to.
  Hence \<open>x_center[i+1] - x_center[i]\<close> differs from
  \<open>half_width[i] + inner_spacing + half_width[i+1]\<close> by at most the rounding of these
  three additions, half a unit in the last place each, and the two are equal whenever
  none of the three additions rounds.
\<close>

theorem adjacent_centers_distance:
  "ws \<noteq> [] \<Longrightarrow>
     (\<exists>cs. compute_hole_centers_fl ws s lb wb m = Inr cs
        \<and> length cs = length ws
        \<and> (\<forall>i. Suc i < length ws \<longrightarrow>
              coord_x (cs ! Suc i)
                = fl (fl (fl (coord_x (cs ! i) + fl (ws ! i / 2)) + s) + fl (ws ! Suc i / 2))
              \<and> \<bar>coord_x (cs ! Suc i) - coord_x (cs ! i)
                   - (fl (ws ! i / 2) + s + fl (ws ! Suc i / 2))\<bar>
                  \<le> half_ulp (coord_x (cs ! i) + fl (ws ! i / 2))
                    + half_ulp (fl (coord_x (cs ! i) + fl (ws ! i / 2)) + s)
                    + half_ulp (fl (fl (coord_x (cs ! i) + fl (ws ! i / 2)) + s)
                                + fl (ws ! Suc i / 2))
              \<and> (fl (coord_x (cs ! i) + fl (ws ! i / 2)) = coord_x (cs ! i) + fl (ws ! i / 2)
                   \<longrightarrow> fl (coord_x (cs ! i) + fl (ws ! i / 2) + s)
                         = coord_x (cs ! i) + fl (ws ! i / 2) + s
                   \<longrightarrow> fl (coord_x (cs ! i) + fl (ws ! i / 2) + s + fl (ws ! Suc i / 2))
                         = coord_x (cs ! i) + fl (ws ! i / 2) + s + fl (ws ! Suc i / 2)
                   \<longrightarrow> coord_x (cs ! Suc i) - coord_x (cs ! i)
                         = fl (ws ! i / 2) + s + fl (ws ! Suc i / 2))))"
proof -
  assume "ws \<noteq> []"
  then obtain cs where cs: "compute_hole_centers_fl ws s lb wb m = Inr cs"
    using compute_hole_centers_fl_nonempty by blast
  then have len: "length cs = length ws"
    by (rule compute_hole_centers_fl_length)
  have step: "coord_x (cs ! Suc i)
                = fl (fl (fl (coord_x (cs ! i) + fl (ws ! i / 2)) + s) + fl (ws ! Suc i / 2))"
    if "Suc i < length ws" for i
    using cs that by (rule compute_hole_centers_fl_adjacent)
  have bound: "\<bar>coord_x (cs ! Suc i) - coord_x (cs ! i)
                   - (fl (ws ! i / 2) + s + fl (ws ! Suc i / 2))\<bar>
                  \<le> half_ulp (coord_x (cs ! i) + fl (ws ! i / 2))
                    + half_ulp (fl (coord_x (cs ! i) + fl (ws ! i / 2)) + s)
                    + half_ulp (fl (fl (coord_x (cs ! i) + fl (ws ! i / 2)) + s)
                                + fl (ws ! Suc i / 2))"
    if "Suc i < length ws" for i
    unfolding step [OF that] by (rule three_roundings)
  have exact: "coord_x (cs ! Suc i) - coord_x (cs ! i)
                 = fl (ws ! i / 2) + s + fl (ws ! Suc i / 2)"
    if "Suc i < length ws"
      and "fl (coord_x (cs ! i) + fl (ws ! i / 2)) = coord_x (cs ! i) + fl (ws ! i / 2)"
      and "fl (coord_x (cs ! i) + fl (ws ! i / 2) + s) = coord_x (cs ! i) + fl (ws ! i / 2) + s"
      and "fl (coord_x (cs ! i) + fl (ws ! i / 2) + s + fl (ws ! Suc i / 2))
             = coord_x (cs ! i) + fl (ws ! i / 2) + s + fl (ws ! Suc i / 2)"
    for i
    unfolding step [OF that(1)] that(2) that(3) that(4) by simp
  from cs len step bound exact show ?thesis
    by blast
qed

theorem adjacent_centers_distance_witness:
  "[24, 24, 31] \<noteq> ([] :: real list)
   \<and> (\<exists>cs. compute_hole_centers_fl [24, 24, 31] (5 / 2) 5 5 46 = Inr cs
        \<and> length cs = 3
        \<and> coord_x (cs ! 0) = 5 \<and> coord_x (cs ! 1) = 63 / 2 \<and> coord_x (cs ! 2) = 123 / 2
        \<and> coord_x (cs ! 1) - coord_x (cs ! 0) = fl (24 / 2) + 5 / 2 + fl (24 / 2)
        \<and> coord_x (cs ! 2) - coord_x (cs ! 1) = fl (24 / 2) + 5 / 2 + fl (31 / 2))"
proof -
  note ev = fl_eval [where k = 47] fl_eval [where k = 48] fl_eval [where k = 49]
    fl_eval [where k = 50]
  let ?ws = "[24, 24, 31] :: real list"
  have ne: "?ws \<noteq> []"
    by simp
  have h: "fl (24 / 2) = 12" "fl (31 / 2) = 31 / 2"
    by (simp_all add: ev rne_def Let_def)
  from adjacent_centers_distance [OF ne, of "5 / 2" 5 5 46]
  obtain cs where cs: "compute_hole_centers_fl ?ws (5 / 2) 5 5 46 = Inr cs"
    and len: "length cs = length ?ws"
    and adj: "\<And>i. Suc i < length ?ws \<Longrightarrow>
        coord_x (cs ! Suc i)
          = fl (fl (fl (coord_x (cs ! i) + fl (?ws ! i / 2)) + 5 / 2) + fl (?ws ! Suc i / 2))"
    by blast
  have x0: "coord_x (cs ! 0) = 5"
    using compute_hole_centers_fl_first [OF cs] by (simp add: ev rne_def Let_def)
  have a0: "coord_x (cs ! Suc 0) = fl (fl (fl (5 + fl (24 / 2)) + 5 / 2) + fl (24 / 2))"
    using adj [of 0] unfolding x0 by simp
  have x1: "coord_x (cs ! Suc 0) = 63 / 2"
    unfolding a0 by (simp add: ev rne_def Let_def)
  have a1: "coord_x (cs ! Suc (Suc 0))
      = fl (fl (fl (63 / 2 + fl (24 / 2)) + 5 / 2) + fl (31 / 2))"
    using adj [of "Suc 0"] unfolding x1 by simp
  have x2: "coord_x (cs ! Suc (Suc 0)) = 123 / 2"
    unfolding a1 by (simp add: ev rne_def Let_def)
  have "coord_x (cs ! 1) = 63 / 2" and "coord_x (cs ! 2) = 123 / 2"
    using x1 x2 by (simp_all add: numeral_2_eq_2)
  with cs len x0 h ne show ?thesis
    by simp
qed

text \<open>
  C6. \<open>compute_hole_centers\<close> gives every centre the same \<open>y\<close>, the widthwise border
  plus the short handle length it is passed; and on every wrench set that is not empty
  the script passes the largest \<open>head_short_length\<close> of the set, so that every hole of
  the layout has \<open>y = widthwise_border + max(head_short_length)\<close>.
\<close>

theorem y_centers_identical:
  "(ws \<noteq> [] \<longrightarrow>
      (\<exists>cs. compute_hole_centers ws s lb wb m = Inr cs
         \<and> length cs = length ws
         \<and> (\<forall>c \<in> set cs. coord_y c = wb + m)))
   \<and> (hs \<noteq> [] \<longrightarrow>
      (\<exists>r. pipeline hs p = Inr r
         \<and> length (hole_details r) = length hs
         \<and> (\<forall>d \<in> set (hole_details r). \<exists>c. hole_coords d = Some c
               \<and> coord_y c = widthwise_border p + Max (head_short_length ` set hs))))"
proof (intro conjI impI)
  assume "ws \<noteq> []"
  then obtain cs where cs: "compute_hole_centers ws s lb wb m = Inr cs"
    using compute_hole_centers_nonempty by blast
  then show "\<exists>cs. compute_hole_centers ws s lb wb m = Inr cs
         \<and> length cs = length ws \<and> (\<forall>c \<in> set cs. coord_y c = wb + m)"
    using compute_hole_centers_length compute_hole_centers_coord_y by blast
next
  let ?hds = "hole_details_without_coords hs p"
  assume "hs \<noteq> []"
  then obtain cs where cs: "compute_hole_centers (hex_wrench_widths_of hs ?hds)
       (lengthwise_inner_spacing p) (lengthwise_border p) (widthwise_border p)
       (Max (set (map head_short_length hs))) = Inr cs"
    and len: "length cs = length hs"
    and run: "pipeline hs p =
       Inr \<lparr> hole_details = hole_details_with_coords ?hds cs,
             holder_length =
               compute_holder_length (coord_x (last cs)) (hex_long_diameter (last ?hds))
                 (lengthwise_border p),
             holder_width =
               compute_holder_width (Max (set (map head_short_length hs)))
                 (Max (set (map hole_diameter ?hds))) (widthwise_border p) \<rparr>"
    by (rule pipeline_nonempty)
  have co: "map hole_coords (hole_details_with_coords ?hds cs) = map Some cs"
    using len by (intro hole_details_with_coords_maps)
      (simp add: length_hole_details_without_coords)
  have "\<exists>c. hole_coords d = Some c
          \<and> coord_y c = widthwise_border p + Max (head_short_length ` set hs)"
    if "d \<in> set (hole_details_with_coords ?hds cs)" for d
  proof -
    from that have "hole_coords d \<in> set (map hole_coords (hole_details_with_coords ?hds cs))"
      by simp
    then obtain c where "c \<in> set cs" and "hole_coords d = Some c"
      unfolding co by auto
    with compute_hole_centers_coord_y [OF cs] show ?thesis
      by simp
  qed
  moreover have "length (hole_details_with_coords ?hds cs) = length hs"
    using len by (simp add: hole_details_with_coords_def length_hole_details_without_coords)
  ultimately show "\<exists>r. pipeline hs p = Inr r
         \<and> length (hole_details r) = length hs
         \<and> (\<forall>d \<in> set (hole_details r). \<exists>c. hole_coords d = Some c
               \<and> coord_y c = widthwise_border p + Max (head_short_length ` set hs))"
    using run by simp
qed

theorem y_centers_identical_witness:
  "[24, 31] \<noteq> ([] :: real list)
   \<and> (\<exists>cs. compute_hole_centers [24, 31] (5 / 2) 5 5 46 = Inr cs
         \<and> length cs = 2
         \<and> coord_y (cs ! 0) = 51 \<and> coord_y (cs ! 1) = 51)
   \<and> [create_hex_wrench 2 24 36, create_hex_wrench 10 31 46] \<noteq> []
   \<and> (\<exists>r. pipeline [create_hex_wrench 2 24 36, create_hex_wrench 10 31 46]
               hex_wrench_holder_parameters = Inr r
         \<and> length (hole_details r) = 2
         \<and> list_all (\<lambda>d. \<exists>c. hole_coords d = Some c \<and> coord_y c = 51) (hole_details r))"
proof -
  let ?hs = "[create_hex_wrench 2 24 36, create_hex_wrench 10 31 46]"
  have mx: "Max (head_short_length ` set ?hs) = 46"
    by (simp add: create_hex_wrench_def Let_def)
  have wb: "widthwise_border hex_wrench_holder_parameters = 5"
    by (simp add: hex_wrench_holder_parameters_def)
  from y_centers_identical [of "[24, 31]" "5 / 2" 5 5 46 ?hs hex_wrench_holder_parameters]
  obtain cs r where cs: "compute_hole_centers [24, 31] (5 / 2) 5 5 46 = Inr cs"
    and len: "length cs = 2"
    and ys: "\<forall>c \<in> set cs. coord_y c = 5 + 46"
    and run: "pipeline ?hs hex_wrench_holder_parameters = Inr r"
    and lenr: "length (hole_details r) = 2"
    and yr: "\<forall>d \<in> set (hole_details r). \<exists>c. hole_coords d = Some c
               \<and> coord_y c = widthwise_border hex_wrench_holder_parameters
                     + Max (head_short_length ` set ?hs)"
    by auto
  from len ys have "coord_y (cs ! 0) = 51" and "coord_y (cs ! 1) = 51"
    by simp_all
  moreover from yr have
    "list_all (\<lambda>d. \<exists>c. hole_coords d = Some c \<and> coord_y c = 51) (hole_details r)"
    unfolding mx wb by (simp add: list_all_iff)
  ultimately show ?thesis
    using cs len run lenr by auto
qed

section \<open>Holder dimensions\<close>



text \<open>
  C4, as the specification words it, does not hold for every wrench set: the code adds
  the border, the largest \<open>head_short_length\<close>, the largest \<open>hole_diameter\<close> and the
  border again, from left to right, each sum rounded, which need not give
  \<open>2*widthwise_border + max(head_short_length) + max(hole_diameter)\<close>. For one wrench of
  size 6.25 with \<open>head_short_length\<close> 46 and the script's parameters the hole diameter
  is 8.660254037844387 and the width comes out as 64.6602540378444, while the formula
  gives 64.66025403784438 when evaluated in doubles, and a number that is not the width
  when evaluated exactly.
\<close>

theorem holder_width_formula_counterexample:
  "\<exists>w r. create_hex_wrench_fl (Finite (25 / 4)) 24 46 = Inr w
      \<and> pipeline_fl [w] hex_wrench_holder_parameters_fl = Inr r
      \<and> Max (head_short_length ` set [w]) = 46
      \<and> Max (hole_diameter ` set (hole_details r)) = 4875289607221227 / 562949953421312
      \<and> holder_width r = 2275030437425919 / 35184372088832
      \<and> fl (fl (fl (2 * 5) + 46) + 4875289607221227 / 562949953421312)
           = 4550060874851837 / 70368744177664
      \<and> holder_width r \<noteq> fl (fl (fl (2 * 5) + 46) + 4875289607221227 / 562949953421312)
      \<and> holder_width r \<noteq> 2 * 5 + 46 + 4875289607221227 / 562949953421312"
proof -
  note ev = fl_eval [where k = 46] fl_eval [where k = 47] fl_eval [where k = 49]
    fl_eval [where k = 50] fl_eval [where k = 52]
  let ?p = hex_wrench_holder_parameters_fl
  define w where "w = \<lparr> size_mm = 25 / 4, head_width = 24, head_short_length = 46,
              size_f = 25 / 4,
              circumference = fl (6 * (25 / 4)),
              square = fl (fl (sqrt 2) * (25 / 4)),
              area = fl (fl (fl (fl (3 / 2) * fl (sqrt 3)) * (25 / 4)) * (25 / 4)) \<rparr>"
  have sz: "fl (25 / 4) = 25 / 4"
    by (simp add: ev rne_def Let_def)
  have w: "create_hex_wrench_fl (Finite (25 / 4)) 24 46 = Inr w"
    unfolding w_def by (simp add: Let_def of_rat_divide sz)
  have c: "fl (2 / (3900231685776981 / 2251799813685248)) = 5200308914369309 / 4503599627370496"
    by (simp add: ev rne_def Let_def)
  have ld: "fl (5200308914369309 / 4503599627370496 * (25 / 4))
      = 8125482678702045 / 1125899906842624"
    by (simp add: ev rne_def Let_def)
  have long: "compute_hex_long_diameter_fl (25 / 4) = 8125482678702045 / 1125899906842624"
    unfolding compute_hex_long_diameter_fl_def fl_sqrt_3 c ld ..
  have f: "fl (6 / 5) = 5404319552844595 / 4503599627370496"
    by (simp add: ev rne_def Let_def)
  have a: "fl (8125482678702045 / 1125899906842624 + 1) = 2312845646386167 / 281474976710656"
    by (simp add: ev rne_def Let_def)
  have b: "fl (8125482678702045 / 1125899906842624 * (5404319552844595 / 4503599627370496))
      = 4875289607221227 / 562949953421312"
    by (simp add: ev rne_def Let_def)
  have hole: "compute_hole_diameter_fl (8125482678702045 / 1125899906842624)
        (5404319552844595 / 4503599627370496) 1 = 4875289607221227 / 562949953421312"
    unfolding compute_hole_diameter_fl_def a b by (simp add: py_max2_def)
  have hds: "map hole_diameter (hole_details_without_coords_fl [w] ?p)
      = [4875289607221227 / 562949953421312]"
    unfolding w_def
    by (simp add: hole_details_without_coords_fl_def compute_hole_detail_fl_def
          hex_wrench_holder_parameters_fl_def long f hole)
  have hsl: "map head_short_length [w] = [46]"
    by (simp add: w_def)
  have w1: "fl (5 + 46) = 51"
    by (simp add: ev rne_def Let_def)
  have w2: "fl (51 + 4875289607221227 / 562949953421312) = 8396434307927035 / 140737488355328"
    by (simp add: ev rne_def Let_def)
  have w3: "fl (8396434307927035 / 140737488355328 + 5) = 2275030437425919 / 35184372088832"
    by (simp add: ev rne_def Let_def)
  have width: "compute_holder_width_fl 46 (4875289607221227 / 562949953421312) 5
      = 2275030437425919 / 35184372088832"
    unfolding compute_holder_width_fl_def w1 w2 w3 ..
  have u1: "fl (2 * 5) = 10"
    by (simp add: ev rne_def Let_def)
  have u2: "fl (10 + 46) = 56"
    by (simp add: ev rne_def Let_def)
  have u3: "fl (56 + 4875289607221227 / 562949953421312) = 4550060874851837 / 70368744177664"
    by (simp add: ev rne_def Let_def)
  have formula: "fl (fl (fl (2 * 5) + 46) + 4875289607221227 / 562949953421312)
      = 4550060874851837 / 70368744177664"
    unfolding u1 u2 u3 ..
  have "[w] \<noteq> []"
    by simp
  then obtain r where run: "pipeline_fl [w] ?p = Inr r"
    and hd: "map hole_diameter (hole_details r)
               = map hole_diameter (hole_details_without_coords_fl [w] ?p)"
    and hw: "holder_width r =
           compute_holder_width_fl (Max (set (map head_short_length [w])))
             (Max (set (map hole_diameter (hole_details_without_coords_fl [w] ?p))))
             (widthwise_border ?p)"
    by (rule pipeline_fl_run)
  have wb: "widthwise_border ?p = 5"
    by (simp add: hex_wrench_holder_parameters_fl_def)
  have 1: "Max (head_short_length ` set [w]) = 46"
    using hsl by simp
  have "hole_diameter ` set (hole_details r) = set (map hole_diameter (hole_details r))"
    by simp
  then have 2: "Max (hole_diameter ` set (hole_details r)) = 4875289607221227 / 562949953421312"
    unfolding hd hds by simp
  have 3: "holder_width r = 2275030437425919 / 35184372088832"
    unfolding hw hds hsl wb using width by simp
  have 4: "holder_width r \<noteq> fl (fl (fl (2 * 5) + 46) + 4875289607221227 / 562949953421312)"
    unfolding 3 formula by simp
  have 5: "holder_width r \<noteq> 2 * 5 + 46 + 4875289607221227 / 562949953421312"
    unfolding 3 by simp
  from w run 1 2 3 formula 4 5 show ?thesis
    by blast
qed

text \<open>
  C4, amended. On every wrench set that is not empty the script computes a holder
  width, and it is the double that \<open>widthwise_border + max(head_short_length) +
  max(hole_diameter) + widthwise_border\<close> evaluates to, added from left to right. It
  differs from \<open>2*widthwise_border + max(head_short_length) + max(hole_diameter)\<close> by at
  most the rounding of the three additions, half a unit in the last place each, and the
  two are equal whenever none of the three additions rounds.
\<close>

theorem holder_width_formula:
  "hs \<noteq> [] \<Longrightarrow>
     (\<exists>r. pipeline_fl hs p = Inr r
        \<and> holder_width r =
            fl (fl (fl (widthwise_border p + Max (head_short_length ` set hs))
                    + Max (hole_diameter ` set (hole_details r)))
                + widthwise_border p)
        \<and> \<bar>holder_width r
             - (2 * widthwise_border p + Max (head_short_length ` set hs)
                  + Max (hole_diameter ` set (hole_details r)))\<bar>
            \<le> half_ulp (widthwise_border p + Max (head_short_length ` set hs))
              + half_ulp (fl (widthwise_border p + Max (head_short_length ` set hs))
                          + Max (hole_diameter ` set (hole_details r)))
              + half_ulp (fl (fl (widthwise_border p + Max (head_short_length ` set hs))
                              + Max (hole_diameter ` set (hole_details r)))
                          + widthwise_border p)
        \<and> (fl (widthwise_border p + Max (head_short_length ` set hs))
              = widthwise_border p + Max (head_short_length ` set hs)
            \<longrightarrow> fl (widthwise_border p + Max (head_short_length ` set hs)
                    + Max (hole_diameter ` set (hole_details r)))
                  = widthwise_border p + Max (head_short_length ` set hs)
                    + Max (hole_diameter ` set (hole_details r))
            \<longrightarrow> fl (widthwise_border p + Max (head_short_length ` set hs)
                    + Max (hole_diameter ` set (hole_details r)) + widthwise_border p)
                  = widthwise_border p + Max (head_short_length ` set hs)
                    + Max (hole_diameter ` set (hole_details r)) + widthwise_border p
            \<longrightarrow> holder_width r =
                  2 * widthwise_border p + Max (head_short_length ` set hs)
                    + Max (hole_diameter ` set (hole_details r))))"
proof -
  assume "hs \<noteq> []"
  then obtain r where run: "pipeline_fl hs p = Inr r"
    and hd: "map hole_diameter (hole_details r)
               = map hole_diameter (hole_details_without_coords_fl hs p)"
    and hw: "holder_width r =
           compute_holder_width_fl (Max (set (map head_short_length hs)))
             (Max (set (map hole_diameter (hole_details_without_coords_fl hs p))))
             (widthwise_border p)"
    by (rule pipeline_fl_run)
  let ?wb = "widthwise_border p"
  let ?a = "Max (head_short_length ` set hs)"
  let ?b = "Max (hole_diameter ` set (hole_details r))"
  have "set (map hole_diameter (hole_details_without_coords_fl hs p))
      = hole_diameter ` set (hole_details r)"
    unfolding hd [symmetric] by simp
  then have w: "holder_width r = fl (fl (fl (?wb + ?a) + ?b) + ?wb)"
    unfolding hw compute_holder_width_fl_def by simp
  have "\<bar>fl (fl (fl (?wb + ?a) + ?b) + ?wb) - ?wb - (?a + ?b + ?wb)\<bar>
      \<le> half_ulp (?wb + ?a) + half_ulp (fl (?wb + ?a) + ?b)
        + half_ulp (fl (fl (?wb + ?a) + ?b) + ?wb)"
    by (rule three_roundings)
  moreover have "holder_width r - (2 * ?wb + ?a + ?b)
      = fl (fl (fl (?wb + ?a) + ?b) + ?wb) - ?wb - (?a + ?b + ?wb)"
    unfolding w by simp
  ultimately have bound: "\<bar>holder_width r - (2 * ?wb + ?a + ?b)\<bar>
      \<le> half_ulp (?wb + ?a) + half_ulp (fl (?wb + ?a) + ?b)
        + half_ulp (fl (fl (?wb + ?a) + ?b) + ?wb)"
    by simp
  have "holder_width r = 2 * ?wb + ?a + ?b"
    if "fl (?wb + ?a) = ?wb + ?a" and "fl (?wb + ?a + ?b) = ?wb + ?a + ?b"
      and "fl (?wb + ?a + ?b + ?wb) = ?wb + ?a + ?b + ?wb"
    unfolding w that by simp
  with run w bound show ?thesis
    by blast
qed

theorem holder_width_formula_witness:
  "[\<lparr> size_mm = 0, head_width = 24, head_short_length = 46, size_f = 0,
       circumference = 0, square = 0, area = 0 \<rparr>] \<noteq> []
   \<and> fl (5 + 46) = 5 + 46 \<and> fl (5 + 46 + 1) = 5 + 46 + 1 \<and> fl (5 + 46 + 1 + 5) = 5 + 46 + 1 + 5
   \<and> (\<exists>r. pipeline_fl
             [\<lparr> size_mm = 0, head_width = 24, head_short_length = 46, size_f = 0,
                 circumference = 0, square = 0, area = 0 \<rparr>]
             hex_wrench_holder_parameters_fl = Inr r
         \<and> Max (hole_diameter ` set (hole_details r)) = 1
         \<and> holder_width r = 2 * 5 + 46 + 1)"
proof -
  note ev = fl_eval [where k = 47] fl_eval [where k = 52]
  let ?p = hex_wrench_holder_parameters_fl
  define w where "w = \<lparr> size_mm = 0, head_width = 24, head_short_length = 46,
      size_f = 0 :: real, circumference = 0, square = 0, area = 0 \<rparr>"
  have ne: "[w] \<noteq> []"
    by simp
  have e: "fl (5 + 46) = 5 + 46" "fl (5 + 46 + 1) = 5 + 46 + 1"
      "fl (5 + 46 + 1 + 5) = 5 + 46 + 1 + 5"
    by (simp_all add: ev rne_def Let_def)
  have one: "fl 1 = 1"
    by (simp add: ev rne_def Let_def)
  have "compute_hex_long_diameter_fl 0 = 0"
    by (simp add: compute_hex_long_diameter_fl_def fl_0)
  then have hds: "map hole_diameter (hole_details_without_coords_fl [w] ?p) = [1]"
    by (simp add: w_def hole_details_without_coords_fl_def compute_hole_detail_fl_def
          compute_hole_diameter_fl_def hex_wrench_holder_parameters_fl_def fl_0 one py_max2_def)
  have wb: "widthwise_border ?p = 5"
    by (simp add: hex_wrench_holder_parameters_fl_def)
  have a: "Max (head_short_length ` set [w]) = 46"
    by (simp add: w_def)
  obtain r where run: "pipeline_fl [w] ?p = Inr r"
    and hd: "map hole_diameter (hole_details r)
               = map hole_diameter (hole_details_without_coords_fl [w] ?p)"
    using ne by (rule pipeline_fl_run)
  have "hole_diameter ` set (hole_details r) = set (map hole_diameter (hole_details r))"
    by simp
  then have b: "Max (hole_diameter ` set (hole_details r)) = 1"
    unfolding hd hds by simp
  from holder_width_formula [OF ne, of ?p]
  obtain r' where run': "pipeline_fl [w] ?p = Inr r'"
    and ex: "fl (widthwise_border ?p + Max (head_short_length ` set [w]))
              = widthwise_border ?p + Max (head_short_length ` set [w])
            \<longrightarrow> fl (widthwise_border ?p + Max (head_short_length ` set [w])
                    + Max (hole_diameter ` set (hole_details r')))
                  = widthwise_border ?p + Max (head_short_length ` set [w])
                    + Max (hole_diameter ` set (hole_details r'))
            \<longrightarrow> fl (widthwise_border ?p + Max (head_short_length ` set [w])
                    + Max (hole_diameter ` set (hole_details r')) + widthwise_border ?p)
                  = widthwise_border ?p + Max (head_short_length ` set [w])
                    + Max (hole_diameter ` set (hole_details r')) + widthwise_border ?p
            \<longrightarrow> holder_width r' =
                  2 * widthwise_border ?p + Max (head_short_length ` set [w])
                    + Max (hole_diameter ` set (hole_details r'))"
    by blast
  from run run' have "r' = r"
    by simp
  with ex have "holder_width r = 2 * 5 + 46 + 1"
    unfolding wb a using b e by simp
  with run b e ne show ?thesis
    unfolding w_def by blast
qed

section \<open>The empty wrench set\<close>

text \<open>
  C7, as the specification words it, does not hold: on the empty wrench list the run
  does not reach the \<open>holder_length\<close> computation. The statement that assigns
  \<open>max_handle_short_length\<close> takes \<open>max\<close> of an empty list and raises \<open>ValueError\<close>.
\<close>

theorem empty_wrench_list_counterexample:
  "pipeline [] hex_wrench_holder_parameters = Inl (Assign_max_handle_short_length, ValueError)
   \<and> pipeline [] hex_wrench_holder_parameters \<noteq> Inl (Assign_holder_length, IndexError)"
  by (simp add: pipeline_def Let_def)

text \<open>
  C7, amended. On the empty wrench list, whatever the parameters, the two list
  comprehensions that build \<open>hole_details\<close> and \<open>hex_wrench_widths\<close> complete and give
  empty lists; the first fault is the \<open>ValueError\<close> of \<open>max\<close> on the empty list of
  \<open>head_short_length\<close> values, at the assignment of \<open>max_handle_short_length\<close>.
\<close>

theorem empty_wrench_list_first_fault:
  "hole_details_without_coords [] p = []
   \<and> hex_wrench_widths_of [] (hole_details_without_coords [] p) = []
   \<and> py_max (map head_short_length []) = Inl ValueError
   \<and> pipeline [] p = Inl (Assign_max_handle_short_length, ValueError)"
  by (simp add: pipeline_def Let_def hole_details_without_coords_def hex_wrench_widths_of_def)

theorem empty_wrench_list_first_fault_witness:
  "hole_details_without_coords [] hex_wrench_holder_parameters = []
   \<and> hex_wrench_widths_of [] [] = []
   \<and> pipeline [] hex_wrench_holder_parameters
        = Inl (Assign_max_handle_short_length, ValueError)"
  using empty_wrench_list_first_fault [of hex_wrench_holder_parameters]
  by (simp add: hex_wrench_widths_of_def)

section \<open>The wrench constructor\<close>

text \<open>
  C8, as the specification words it, does not hold: \<open>float(size)\<close> raises \<open>ValueError\<close>
  when the \<open>Decimal\<close> is a signalling NaN, so there is an input for which an error is
  raised; and the area is \<open>3 / 2 * sqrt(3) * size_f * size_f\<close> multiplied from left to
  right, which in doubles is not \<open>(3/2) * sqrt(3) * size_f^2\<close>: for the size 0.1 the code
  gives 0.025980762113533163 and the formula 0.025980762113533167.
\<close>

theorem create_hex_wrench_counterexample:
  "create_hex_wrench_fl sNaN 24 36 = Inl ValueError
   \<and> (\<exists>w. create_hex_wrench_fl (Finite (1 / 10)) 24 36 = Inr w
         \<and> size_f w = 3602879701896397 / 36028797018963968
         \<and> area w = 7488444836691805 / 288230376151711744
         \<and> fl (fl (fl (3 / 2) * fl (sqrt 3)) * fl ((size_f w)\<^sup>2))
              = 3744222418345903 / 144115188075855872
         \<and> area w \<noteq> fl (fl (fl (3 / 2) * fl (sqrt 3)) * fl ((size_f w)\<^sup>2)))"
proof -
  note ev = fl_eval [where k = 51] fl_eval [where k = 52] fl_eval [where k = 54]
    fl_eval [where k = 56] fl_eval [where k = 58] fl_eval [where k = 59]
  have s: "fl (1 / 10) = 3602879701896397 / 36028797018963968"
    by (simp add: ev rne_def Let_def)
  have h: "fl (3 / 2) = 3 / 2"
    by (simp add: ev rne_def Let_def)
  have c: "fl (3 / 2 * (3900231685776981 / 2251799813685248)) = 45705840067699 / 17592186044416"
    by (simp add: ev rne_def Let_def)
  have a1: "fl (45705840067699 / 17592186044416 * (3602879701896397 / 36028797018963968))
      = 2340139011466189 / 9007199254740992"
    by (simp add: ev rne_def Let_def)
  have a2: "fl (2340139011466189 / 9007199254740992 * (3602879701896397 / 36028797018963968))
      = 7488444836691805 / 288230376151711744"
    by (simp add: ev rne_def Let_def)
  have sq: "fl ((3602879701896397 / 36028797018963968)\<^sup>2)
      = 1441151880758559 / 144115188075855872"
    by (simp add: ev rne_def Let_def power2_eq_square)
  have f: "fl (45705840067699 / 17592186044416 * (1441151880758559 / 144115188075855872))
      = 3744222418345903 / 144115188075855872"
    by (simp add: ev rne_def Let_def)
  define w where "w = \<lparr> size_mm = 1 / 10, head_width = 24, head_short_length = 36,
      size_f = 3602879701896397 / 36028797018963968,
      circumference = fl (6 * (3602879701896397 / 36028797018963968)),
      square = fl (fl (sqrt 2) * (3602879701896397 / 36028797018963968)),
      area = 7488444836691805 / 288230376151711744 \<rparr>"
  have sr: "fl (of_rat (1 / 10)) = 3602879701896397 / 36028797018963968"
    using s by (simp add: of_rat_divide)
  have w: "create_hex_wrench_fl (Finite (1 / 10)) 24 36 = Inr w"
    unfolding w_def create_hex_wrench_fl.simps Let_def sr h fl_sqrt_3 c a1 a2 ..
  have 1: "size_f w = 3602879701896397 / 36028797018963968"
    and 2: "area w = 7488444836691805 / 288230376151711744"
    by (simp_all add: w_def)
  have 3: "fl (fl (fl (3 / 2) * fl (sqrt 3)) * fl ((size_f w)\<^sup>2))
      = 3744222418345903 / 144115188075855872"
    unfolding 1 h fl_sqrt_3 c sq f ..
  have 4: "area w \<noteq> fl (fl (fl (3 / 2) * fl (sqrt 3)) * fl ((size_f w)\<^sup>2))"
    unfolding 3 2 by simp
  have "create_hex_wrench_fl sNaN 24 36 = Inl ValueError"
    by simp
  with w 1 2 3 4 show ?thesis
    by blast
qed

text \<open>
  C8, amended. For every finite \<open>Decimal\<close> size and every head width and head short
  length, \<open>create_hex_wrench\<close> raises nothing and returns a wrench that keeps the three
  inputs and has \<open>size_f = float(size)\<close>, the nearest double, \<open>circumference = 6 * size_f\<close>,
  \<open>square = sqrt(2) * size_f\<close> and \<open>area = ((3/2 * sqrt(3)) * size_f) * size_f\<close>, each
  operation rounded to a double in this order. For a signalling NaN, \<open>float(size)\<close>
  raises \<open>ValueError\<close>.
\<close>

theorem create_hex_wrench_fields:
  "create_hex_wrench_fl sNaN hw hsl = Inl ValueError
   \<and> (\<exists>w. create_hex_wrench_fl (Finite q) hw hsl = Inr w
         \<and> size_mm w = q
         \<and> head_width w = hw
         \<and> head_short_length w = hsl
         \<and> size_f w = fl (of_rat q)
         \<and> circumference w = fl (6 * size_f w)
         \<and> square w = fl (fl (sqrt 2) * size_f w)
         \<and> area w = fl (fl (fl (fl (3 / 2) * fl (sqrt 3)) * size_f w) * size_f w))"
  by (simp add: Let_def)

theorem create_hex_wrench_fields_witness:
  "create_hex_wrench_fl sNaN 24 36 = Inl ValueError
   \<and> (\<exists>w. create_hex_wrench_fl (Finite (5 / 2)) 24 36 = Inr w
         \<and> size_mm w = 5 / 2
         \<and> head_width w = 24
         \<and> head_short_length w = 36
         \<and> size_f w = 5 / 2
         \<and> circumference w = 15
         \<and> square w = fl (fl (sqrt 2) * (5 / 2))
         \<and> area w = fl (fl (fl (3 / 2 * (3900231685776981 / 2251799813685248)) * (5 / 2)) * (5 / 2)))"
proof -
  note ev = fl_eval [where k = 49] fl_eval [where k = 51] fl_eval [where k = 52]
  have s: "fl (of_rat (5 / 2)) = 5 / 2"
    by (simp add: of_rat_divide ev rne_def Let_def)
  have c: "fl (6 * (5 / 2)) = 15"
    by (simp add: ev rne_def Let_def)
  have h: "fl (3 / 2) = 3 / 2"
    by (simp add: ev rne_def Let_def)
  from create_hex_wrench_fields [of 24 36 "5 / 2"]
  obtain w where "create_hex_wrench_fl (Finite (5 / 2)) 24 36 = Inr w"
    and "size_mm w = 5 / 2" and "head_width w = 24" and "head_short_length w = 36"
    and "size_f w = fl (of_rat (5 / 2))"
    and "circumference w = fl (6 * size_f w)"
    and "square w = fl (fl (sqrt 2) * size_f w)"
    and "area w = fl (fl (fl (fl (3 / 2) * fl (sqrt 3)) * size_f w) * size_f w)"
    by blast
  moreover have "create_hex_wrench_fl sNaN 24 36 = Inl ValueError"
    by simp
  ultimately show ?thesis
    unfolding s c h fl_sqrt_3 by (metis c)
qed

section \<open>Coordinates in the final hole details\<close>

text \<open>
  C10. \<open>compute_hole_centers\<close> returns one centre per width it is given. Hence on
  every wrench set that is not empty the final \<open>hole_details\<close> has one entry per wrench,
  in the order of the wrenches, each with coordinates, and the table prints no row
  through the branch for missing coordinates. This holds in particular for the run of
  the script on its own eight wrenches.
\<close>

theorem hole_coords_populated:
  "(\<forall>cs. compute_hole_centers ws s lb wb m = Inr cs \<longrightarrow> length cs = length ws)
   \<and> (hs \<noteq> [] \<longrightarrow>
      (\<exists>r. pipeline hs p = Inr r
         \<and> length (hole_details r) = length hs
         \<and> map hex_size (hole_details r) = map size_mm hs
         \<and> (\<forall>d \<in> set (hole_details r).
               hole_coords d \<noteq> None \<and> \<not> is_Row_None (hole_row d))))
   \<and> (\<exists>r. main = Inr r
         \<and> length (hole_details r) = 8
         \<and> (\<forall>d \<in> set (hole_details r).
               hole_coords d \<noteq> None \<and> \<not> is_Row_None (hole_row d)))"
proof -
  have general: "\<exists>r. pipeline hs' p' = Inr r
         \<and> length (hole_details r) = length hs'
         \<and> map hex_size (hole_details r) = map size_mm hs'
         \<and> (\<forall>d \<in> set (hole_details r).
               hole_coords d \<noteq> None \<and> \<not> is_Row_None (hole_row d))"
    if ne: "hs' \<noteq> []" for hs' p'
  proof -
    let ?hds = "hole_details_without_coords hs' p'"
    from ne obtain cs where len: "length cs = length hs'"
      and run: "pipeline hs' p' =
         Inr \<lparr> hole_details = hole_details_with_coords ?hds cs,
               holder_length =
                 compute_holder_length (coord_x (last cs)) (hex_long_diameter (last ?hds))
                   (lengthwise_border p'),
               holder_width =
                 compute_holder_width (Max (set (map head_short_length hs')))
                   (Max (set (map hole_diameter ?hds))) (widthwise_border p') \<rparr>"
      by (rule pipeline_nonempty)
    have len': "length ?hds = length cs"
      using len by (simp add: length_hole_details_without_coords)
    have a: "length (hole_details_with_coords ?hds cs) = length hs'"
      using len by (simp add: hole_details_with_coords_def length_hole_details_without_coords)
    have b: "map hex_size (hole_details_with_coords ?hds cs) = map size_mm hs'"
      using hole_details_with_coords_maps(1) [OF len']
      by (simp add: hex_size_hole_details_without_coords)
    have co: "map hole_coords (hole_details_with_coords ?hds cs) = map Some cs"
      using len' by (rule hole_details_with_coords_maps(4))
    have c: "hole_coords d \<noteq> None \<and> \<not> is_Row_None (hole_row d)"
      if "d \<in> set (hole_details_with_coords ?hds cs)" for d
    proof -
      from that have "hole_coords d \<in> set (map hole_coords (hole_details_with_coords ?hds cs))"
        by simp
      then obtain c where "hole_coords d = Some c"
        unfolding co by auto
      then show ?thesis
        using hole_row_not_None by simp
    qed
    show ?thesis
      unfolding run using a b c by simp
  qed
  have "\<forall>cs. compute_hole_centers ws s lb wb m = Inr cs \<longrightarrow> length cs = length ws"
    using compute_hole_centers_length by blast
  moreover have "hs \<noteq> [] \<longrightarrow>
      (\<exists>r. pipeline hs p = Inr r
         \<and> length (hole_details r) = length hs
         \<and> map hex_size (hole_details r) = map size_mm hs
         \<and> (\<forall>d \<in> set (hole_details r).
               hole_coords d \<noteq> None \<and> \<not> is_Row_None (hole_row d)))"
    using general by blast
  moreover have "\<exists>r. main = Inr r
         \<and> length (hole_details r) = 8
         \<and> (\<forall>d \<in> set (hole_details r).
               hole_coords d \<noteq> None \<and> \<not> is_Row_None (hole_row d))"
  proof -
    have "length hex_set = 8"
      by (simp add: hex_set_def)
    with general [OF hex_set_nonempty, of hex_wrench_holder_parameters] show ?thesis
      unfolding main_def by auto
  qed
  ultimately show ?thesis
    by blast
qed

theorem hole_coords_populated_witness:
  "(\<exists>cs. compute_hole_centers [24, 31] (5 / 2) 5 5 46 = Inr cs \<and> length cs = 2)
   \<and> [create_hex_wrench 2 24 36, create_hex_wrench 10 31 46] \<noteq> []
   \<and> (\<exists>r. pipeline [create_hex_wrench 2 24 36, create_hex_wrench 10 31 46]
               hex_wrench_holder_parameters = Inr r
         \<and> length (hole_details r) = 2
         \<and> map hex_size (hole_details r) = [2, 10]
         \<and> list_all (\<lambda>d. hole_coords d \<noteq> None \<and> \<not> is_Row_None (hole_row d))
              (hole_details r))
   \<and> (\<exists>r. main = Inr r
         \<and> length (hole_details r) = 8
         \<and> list_all (\<lambda>d. hole_coords d \<noteq> None \<and> \<not> is_Row_None (hole_row d))
              (hole_details r))"
proof -
  let ?hs = "[create_hex_wrench 2 24 36, create_hex_wrench 10 31 46]"
  have ne: "?hs \<noteq> []"
    by simp
  note t = hole_coords_populated [of "[24, 31]" "5 / 2" 5 5 46 ?hs hex_wrench_holder_parameters]
  obtain cs where cs: "compute_hole_centers [24, 31] (5 / 2) 5 5 46 = Inr cs"
    using compute_hole_centers_nonempty [of "[24, 31]"] by blast
  with t [THEN conjunct1] have "length cs = 2"
    by simp
  with cs have 1: "\<exists>cs. compute_hole_centers [24, 31] (5 / 2) 5 5 46 = Inr cs \<and> length cs = 2"
    by blast
  have sz: "map size_mm ?hs = [2, 10]"
    by (simp add: create_hex_wrench_def Let_def)
  from t [THEN conjunct2, THEN conjunct1, rule_format, OF ne]
  obtain r where "pipeline ?hs hex_wrench_holder_parameters = Inr r"
    and "length (hole_details r) = length ?hs"
    and "map hex_size (hole_details r) = map size_mm ?hs"
    and "\<forall>d \<in> set (hole_details r). hole_coords d \<noteq> None \<and> \<not> is_Row_None (hole_row d)"
    by blast
  then have 2: "\<exists>r. pipeline ?hs hex_wrench_holder_parameters = Inr r
         \<and> length (hole_details r) = 2
         \<and> map hex_size (hole_details r) = [2, 10]
         \<and> list_all (\<lambda>d. hole_coords d \<noteq> None \<and> \<not> is_Row_None (hole_row d))
              (hole_details r)"
    unfolding sz list_all_iff by (intro exI [of _ r]) simp
  from t [THEN conjunct2, THEN conjunct2]
  have 3: "\<exists>r. main = Inr r
         \<and> length (hole_details r) = 8
         \<and> list_all (\<lambda>d. hole_coords d \<noteq> None \<and> \<not> is_Row_None (hole_row d))
              (hole_details r)"
    unfolding list_all_iff .
  from 1 ne 2 3 show ?thesis
    by (intro conjI)
qed

end
